theory Spec2Isabelle
  imports Complex_Main
begin

section \<open>Python values and exceptions\<close>

text \<open>
  The import command of the repository (\<^verbatim>\<open>poi/management/commands/import_poi.py\<close>) and the
  model (\<^verbatim>\<open>poi/models.py\<close>) work on dynamically typed Python values. A value is one of the
  shapes that \<^verbatim>\<open>json.loads\<close>, \<^verbatim>\<open>csv.DictReader\<close> and \<^verbatim>\<open>Element.text\<close> can produce.

  Floats are idealised: a finite float is the exact rational it denotes (binary64 rounding
  and underflow are not modelled), and a magnitude at or above \<open>2^1024 - 2^970\<close> is outside
  the finite range, where Python yields an infinity or raises \<^verbatim>\<open>OverflowError\<close>.
  Strings are lists of 8-bit characters, read as the UTF-8 encoding of the Python string;
  the character classes below are the ASCII ones.
\<close>

datatype pyfloat = Fin rat | PosInf | NegInf | NaN

datatype pyval =
    PNone
  | PBool bool
  | PInt int
  | PFloat pyfloat
  | PStr string
  | PList "pyval list"
  | PDict "(string \<times> pyval) list"

datatype error =
    JSONDecodeError
  | ValueError
  | TypeError
  | KeyError string
  | AttributeError
  | InvalidOperation
  | OverflowError
  | ZeroDivisionError
  | ParseError
  | RequestException
  | OSError
  | CsvError
  | DatabaseError
  | CommandError string

text \<open>\<^verbatim>\<open>except ValueError\<close> also catches \<^verbatim>\<open>json.JSONDecodeError\<close>, its subclass.\<close>

definition is_ValueError :: "error \<Rightarrow> bool" where
  "is_ValueError e = (e = ValueError \<or> e = JSONDecodeError)"

definition bind :: "error + 'a \<Rightarrow> ('a \<Rightarrow> error + 'b) \<Rightarrow> error + 'b" where
  "bind m f = (case m of Inl e \<Rightarrow> Inl e | Inr x \<Rightarrow> f x)"

subsection \<open>Characters and strings\<close>

definition is_digit :: "char \<Rightarrow> bool" where
  "is_digit c = (48 \<le> (of_char c :: nat) \<and> (of_char c :: nat) \<le> 57)"

definition digit_val :: "char \<Rightarrow> nat" where
  "digit_val c = of_char c - 48"

definition nat_of_digits :: "string \<Rightarrow> nat" where
  "nat_of_digits ds = foldl (\<lambda>a c. 10 * a + digit_val c) 0 ds"

definition lower_char :: "char \<Rightarrow> char" where
  "lower_char c =
     (if 65 \<le> (of_char c :: nat) \<and> (of_char c :: nat) \<le> 90 then char_of (of_char c + 32 :: nat) else c)"

definition lower :: "string \<Rightarrow> string" where
  "lower s = map lower_char s"

text \<open>C's \<^verbatim>\<open>isspace\<close>, which \<^verbatim>\<open>float()\<close> strips, and \<^verbatim>\<open>str.isspace\<close>, which \<^verbatim>\<open>str.strip()\<close> strips.\<close>

definition c_isspace :: "char \<Rightarrow> bool" where
  "c_isspace c = ((of_char c :: nat) = 32 \<or> (9 \<le> (of_char c :: nat) \<and> (of_char c :: nat) \<le> 13))"

definition py_isspace :: "char \<Rightarrow> bool" where
  "py_isspace c = (c_isspace c \<or> (28 \<le> (of_char c :: nat) \<and> (of_char c :: nat) \<le> 31))"

definition strip_with :: "(char \<Rightarrow> bool) \<Rightarrow> string \<Rightarrow> string" where
  "strip_with p s = rev (dropWhile p (rev (dropWhile p s)))"

text \<open>\<^verbatim>\<open>s.strip()\<close> and \<^verbatim>\<open>s.strip(chars)\<close>.\<close>

definition strip :: "string \<Rightarrow> string" where
  "strip s = strip_with py_isspace s"

definition strip_chars :: "string \<Rightarrow> string \<Rightarrow> string" where
  "strip_chars chars s = strip_with (\<lambda>c. c \<in> set chars) s"

text \<open>\<^verbatim>\<open>s.split(sep)\<close> for a one-character separator: never the empty list.\<close>

fun split_on :: "char \<Rightarrow> string \<Rightarrow> string list" where
  "split_on sep [] = [[]]"
| "split_on sep (c # cs) =
     (if c = sep then [] # split_on sep cs
      else (case split_on sep cs of p # ps \<Rightarrow> (c # p) # ps | [] \<Rightarrow> [[c]]))"

subsection \<open>\<^verbatim>\<open>float(str)\<close>\<close>

definition float_limit :: rat where
  "float_limit = 2 ^ 1024 - 2 ^ 970"

definition to_float :: "rat \<Rightarrow> pyfloat" where
  "to_float q = (if float_limit \<le> q then PosInf else if q \<le> - float_limit then NegInf else Fin q)"

text \<open>\<^verbatim>\<open>digitpart ::= digit (["_"] digit)*\<close>: the digits read and the rest of the input.\<close>

fun digitpart :: "string \<Rightarrow> string \<times> string" where
  "digitpart [] = ([], [])"
| "digitpart [c] = (if is_digit c then ([c], []) else ([], [c]))"
| "digitpart (c # u # cs) =
     (if is_digit c then
        (case cs of
           d # ds \<Rightarrow>
             if u = CHR ''_'' \<and> is_digit d
             then (case digitpart (d # ds) of (r, rest) \<Rightarrow> (c # r, rest))
             else (case digitpart (u # cs) of (r, rest) \<Rightarrow> (c # r, rest))
         | [] \<Rightarrow> (case digitpart (u # cs) of (r, rest) \<Rightarrow> (c # r, rest)))
      else ([], c # u # cs))"

definition split_sign :: "string \<Rightarrow> bool \<times> string" where
  "split_sign s =
     (case s of
        [] \<Rightarrow> (False, [])
      | c # cs \<Rightarrow> if c = CHR ''-'' then (True, cs) else if c = CHR ''+'' then (False, cs) else (False, s))"

text \<open>An optional \<^verbatim>\<open>exponent ::= ("e" | "E") [sign] digitpart\<close>; \<open>None\<close> when it starts and breaks off.\<close>

definition exponent_part :: "string \<Rightarrow> (int \<times> string) option" where
  "exponent_part s =
     (case s of
        [] \<Rightarrow> Some (0, [])
      | c # cs \<Rightarrow>
          if c = CHR ''e'' \<or> c = CHR ''E'' then
            (case split_sign cs of (neg, r) \<Rightarrow>
               (case digitpart r of (ds, r') \<Rightarrow>
                  if ds = [] then None
                  else Some (if neg then - int (nat_of_digits ds) else int (nat_of_digits ds), r')))
          else Some (0, s))"

text \<open>\<^verbatim>\<open>floatnumber ::= ([digitpart] "." digitpart | digitpart ["."]) [exponent]\<close>, the whole input.\<close>

definition floatnumber :: "string \<Rightarrow> rat option" where
  "floatnumber s =
     (case digitpart s of (ip, r1) \<Rightarrow>
        (case (case r1 of
                 [] \<Rightarrow> ([], [])
               | c # cs \<Rightarrow> if c = CHR ''.'' then digitpart cs else ([], r1)) of (fp, r2) \<Rightarrow>
           if ip = [] \<and> fp = [] then None
           else (case exponent_part r2 of
                   None \<Rightarrow> None
                 | Some (e, r3) \<Rightarrow>
                     if r3 \<noteq> [] then None
                     else Some (of_nat (nat_of_digits (ip @ fp)) * 10 powi (e - int (length fp))))))"

definition py_float :: "string \<Rightarrow> error + pyfloat" where
  "py_float s =
     (case split_sign (strip_with c_isspace s) of (neg, r) \<Rightarrow>
        if lower r = ''inf'' \<or> lower r = ''infinity'' then Inr (if neg then NegInf else PosInf)
        else if lower r = ''nan'' then Inr NaN
        else (case floatnumber r of
                None \<Rightarrow> Inl ValueError
              | Some q \<Rightarrow> Inr (to_float (if neg then - q else q))))"

subsection \<open>\<^verbatim>\<open>json.loads\<close>\<close>

text \<open>
  The decoder of the standard library with its default settings: whitespace is space, tab,
  newline and carriage return; \<^verbatim>\<open>NaN\<close>, \<^verbatim>\<open>Infinity\<close> and \<^verbatim>\<open>-Infinity\<close> are accepted; a number
  without fraction and exponent is an \<^verbatim>\<open>int\<close>; a later duplicate key replaces the value of
  an earlier one; every failure is \<^verbatim>\<open>JSONDecodeError\<close>. The interpreter's resource limits
  (recursion depth, digits of an integer literal) are not modelled.
\<close>

definition json_ws :: "char \<Rightarrow> bool" where
  "json_ws c = (c = CHR '' '' \<or> c = CHR 0x09 \<or> c = CHR 0x0A \<or> c = CHR 0x0D)"

definition skip_ws :: "string \<Rightarrow> string" where
  "skip_ws s = dropWhile json_ws s"

definition hex_val :: "char \<Rightarrow> nat option" where
  "hex_val c =
     (let n = (of_char c :: nat) in
      if 48 \<le> n \<and> n \<le> 57 then Some (n - 48)
      else if 97 \<le> n \<and> n \<le> 102 then Some (n - 87)
      else if 65 \<le> n \<and> n \<le> 70 then Some (n - 55)
      else None)"

definition hex4 :: "char \<Rightarrow> char \<Rightarrow> char \<Rightarrow> char \<Rightarrow> nat option" where
  "hex4 a b c d =
     (case (hex_val a, hex_val b, hex_val c, hex_val d) of
        (Some w, Some x, Some y, Some z) \<Rightarrow> Some (((w * 16 + x) * 16 + y) * 16 + z)
      | _ \<Rightarrow> None)"

definition utf8 :: "nat \<Rightarrow> string" where
  "utf8 cp =
     (if cp < 0x80 then [char_of cp]
      else if cp < 0x800 then [char_of (0xC0 + cp div 64), char_of (0x80 + cp mod 64)]
      else if cp < 0x10000 then
        [char_of (0xE0 + cp div 4096), char_of (0x80 + cp div 64 mod 64), char_of (0x80 + cp mod 64)]
      else
        [char_of (0xF0 + cp div 262144), char_of (0x80 + cp div 4096 mod 64),
         char_of (0x80 + cp div 64 mod 64), char_of (0x80 + cp mod 64)])"

definition simple_escape :: "char \<Rightarrow> char option" where
  "simple_escape e =
     (if e = CHR 0x22 \<or> e = CHR 0x5C \<or> e = CHR ''/'' then Some e
      else if e = CHR ''b'' then Some (CHR 0x08)
      else if e = CHR ''f'' then Some (CHR 0x0C)
      else if e = CHR ''n'' then Some (CHR 0x0A)
      else if e = CHR ''r'' then Some (CHR 0x0D)
      else if e = CHR ''t'' then Some (CHR 0x09)
      else None)"

definition prepend :: "string \<Rightarrow> (string \<times> string) option \<Rightarrow> (string \<times> string) option" where
  "prepend p r = map_option (\<lambda>(t, rest). (p @ t, rest)) r"

text \<open>
  An escape, read after its backslash: the text it stands for and the number of characters
  it takes. A \<^verbatim>\<open>\uXXXX\<close> high surrogate followed by a \<^verbatim>\<open>\uXXXX\<close> low surrogate is one code point.
\<close>

definition escape :: "string \<Rightarrow> (string \<times> nat) option" where
  "escape s =
     (case s of
        [] \<Rightarrow> None
      | e # r \<Rightarrow>
          if e = CHR ''u'' then
            (case r of
               h1 # h2 # h3 # h4 # r1 \<Rightarrow>
                 (case hex4 h1 h2 h3 h4 of
                    None \<Rightarrow> None
                  | Some u \<Rightarrow>
                      if 0xD800 \<le> u \<and> u \<le> 0xDBFF then
                        (case r1 of
                           b # v # k1 # k2 # k3 # k4 # r2 \<Rightarrow>
                             if b = CHR 0x5C \<and> v = CHR ''u'' then
                               (case hex4 k1 k2 k3 k4 of
                                  None \<Rightarrow> None
                                | Some l \<Rightarrow>
                                    if 0xDC00 \<le> l \<and> l \<le> 0xDFFF
                                    then Some (utf8 (0x10000 + (u - 0xD800) * 1024 + (l - 0xDC00)), 11)
                                    else Some (utf8 u, 5))
                             else Some (utf8 u, 5)
                         | _ \<Rightarrow> Some (utf8 u, 5))
                      else Some (utf8 u, 5))
             | _ \<Rightarrow> None)
          else (case simple_escape e of None \<Rightarrow> None | Some ch \<Rightarrow> Some ([ch], 1)))"

text \<open>
  The body of a string after its opening quote: the decoded text and the input after the
  closing quote. A control character inside the string is an error.
\<close>

function scanstring :: "string \<Rightarrow> (string \<times> string) option" where
  "scanstring [] = None"
| "scanstring (c # cs) =
     (if c = CHR 0x22 then Some ([], cs)
      else if c = CHR 0x5C then
        (case escape cs of
           None \<Rightarrow> None
         | Some (p, k) \<Rightarrow> prepend p (scanstring (drop k cs)))
      else if (of_char c :: nat) < 32 then None
      else prepend [c] (scanstring cs))"
  by pat_completeness auto
termination
  by (relation "measure length") auto

text \<open>The number pattern \<^verbatim>\<open>(-?(?:0|[1-9][0-9]*))(\.[0-9]+)?([eE][-+]?[0-9]+)?\<close> at the head of the input.\<close>

definition json_exponent :: "string \<Rightarrow> int option \<times> string" where
  "json_exponent s =
     (case s of
        [] \<Rightarrow> (None, [])
      | c # cs \<Rightarrow>
          if c = CHR ''e'' \<or> c = CHR ''E'' then
            (case split_sign cs of (neg, r) \<Rightarrow>
               if takeWhile is_digit r = [] then (None, s)
               else (Some (if neg then - int (nat_of_digits (takeWhile is_digit r))
                           else int (nat_of_digits (takeWhile is_digit r))),
                     dropWhile is_digit r))
          else (None, s))"

definition json_int_part :: "string \<Rightarrow> string \<times> string" where
  "json_int_part s =
     (case s of
        [] \<Rightarrow> ([], [])
      | c # cs \<Rightarrow> if c = CHR ''0'' then ([c], cs) else (takeWhile is_digit s, dropWhile is_digit s))"

definition json_frac_part :: "string \<Rightarrow> string \<times> string" where
  "json_frac_part s =
     (case s of
        [] \<Rightarrow> ([], [])
      | c # cs \<Rightarrow>
          if c = CHR ''.'' \<and> takeWhile is_digit cs \<noteq> []
          then (takeWhile is_digit cs, dropWhile is_digit cs)
          else ([], s))"

definition json_number :: "string \<Rightarrow> (pyval \<times> string) option" where
  "json_number s =
     (case (case s of [] \<Rightarrow> (False, []) | c # cs \<Rightarrow> if c = CHR ''-'' then (True, cs) else (False, s)) of
        (neg, r0) \<Rightarrow>
          (case json_int_part r0 of
             (ip, r1) \<Rightarrow>
               if ip = [] then None
               else
                 (case json_frac_part r1 of
                    (fp, r2) \<Rightarrow>
                      (case json_exponent r2 of
                         (ex, r3) \<Rightarrow>
                           if fp = [] \<and> ex = None
                           then Some (PInt (if neg then - int (nat_of_digits ip) else int (nat_of_digits ip)), r3)
                           else
                             (let q = of_nat (nat_of_digits (ip @ fp))
                                        * 10 powi ((case ex of None \<Rightarrow> 0 | Some e \<Rightarrow> e) - int (length fp))
                              in Some (PFloat (to_float (if neg then - q else q)), r3))))))"

text \<open>Storing a key in a \<^verbatim>\<open>dict\<close>: an existing key keeps its place and takes the new value.\<close>

fun dict_set :: "string \<Rightarrow> pyval \<Rightarrow> (string \<times> pyval) list \<Rightarrow> (string \<times> pyval) list" where
  "dict_set k v [] = [(k, v)]"
| "dict_set k v ((k', v') # d) = (if k = k' then (k, v) # d else (k', v') # dict_set k v d)"

definition dict_of :: "(string \<times> pyval) list \<Rightarrow> (string \<times> pyval) list" where
  "dict_of ps = foldl (\<lambda>d (k, v). dict_set k v d) [] ps"

text \<open>
  \<open>scan_once\<close> reads one value at the head of the input; \<open>JSONArray\<close> and \<open>JSONObject\<close> read
  the elements and members after a bracket that does not close at once. The first
  argument bounds the number of nested calls; \<open>json_loads\<close> starts with a bound that the
  input cannot use up (lemma \<open>json_loads_bound\<close>).
\<close>

fun scan_once :: "nat \<Rightarrow> string \<Rightarrow> (pyval \<times> string) option"
  and JSONArray :: "nat \<Rightarrow> string \<Rightarrow> (pyval list \<times> string) option"
  and JSONObject :: "nat \<Rightarrow> string \<Rightarrow> ((string \<times> pyval) list \<times> string) option"
where
  "scan_once 0 s = None"
| "scan_once (Suc n) s =
     (case s of
        [] \<Rightarrow> None
      | c # cs \<Rightarrow>
          if c = CHR 0x22 then map_option (\<lambda>(t, r). (PStr t, r)) (scanstring cs)
          else if c = CHR ''{'' then
            (case skip_ws cs of
               [] \<Rightarrow> None
             | d # ds \<Rightarrow>
                 if d = CHR ''}'' then Some (PDict [], ds)
                 else map_option (\<lambda>(ps, r). (PDict (dict_of ps), r)) (JSONObject n (d # ds)))
          else if c = CHR ''['' then
            (case skip_ws cs of
               [] \<Rightarrow> None
             | d # ds \<Rightarrow>
                 if d = CHR '']'' then Some (PList [], ds)
                 else map_option (\<lambda>(vs, r). (PList vs, r)) (JSONArray n (d # ds)))
          else if take 4 s = ''null'' then Some (PNone, drop 4 s)
          else if take 4 s = ''true'' then Some (PBool True, drop 4 s)
          else if take 5 s = ''false'' then Some (PBool False, drop 5 s)
          else
            (case json_number s of
               Some r \<Rightarrow> Some r
             | None \<Rightarrow>
                 if take 3 s = ''NaN'' then Some (PFloat NaN, drop 3 s)
                 else if take 8 s = ''Infinity'' then Some (PFloat PosInf, drop 8 s)
                 else if take 9 s = ''-Infinity'' then Some (PFloat NegInf, drop 9 s)
                 else None))"
| "JSONArray 0 s = None"
| "JSONArray (Suc n) s =
     (case scan_once n s of
        None \<Rightarrow> None
      | Some (v, r) \<Rightarrow>
          (case skip_ws r of
             [] \<Rightarrow> None
           | c # cs \<Rightarrow>
               if c = CHR '']'' then Some ([v], cs)
               else if c = CHR '','' then map_option (\<lambda>(vs, r'). (v # vs, r')) (JSONArray n (skip_ws cs))
               else None))"
| "JSONObject 0 s = None"
| "JSONObject (Suc n) s =
     (case s of
        [] \<Rightarrow> None
      | q # s1 \<Rightarrow>
          if q \<noteq> CHR 0x22 then None
          else
            (case scanstring s1 of
               None \<Rightarrow> None
             | Some (k, r1) \<Rightarrow>
                 (case skip_ws r1 of
                    [] \<Rightarrow> None
                  | c # r2 \<Rightarrow>
                      if c \<noteq> CHR '':'' then None
                      else
                        (case scan_once n (skip_ws r2) of
                           None \<Rightarrow> None
                         | Some (v, r3) \<Rightarrow>
                             (case skip_ws r3 of
                                [] \<Rightarrow> None
                              | d # r4 \<Rightarrow>
                                  if d = CHR ''}'' then Some ([(k, v)], r4)
                                  else if d = CHR '','' then
                                    map_option (\<lambda>(ps, r'). ((k, v) # ps, r')) (JSONObject n (skip_ws r4))
                                  else None)))))"

definition json_loads :: "string \<Rightarrow> error + pyval" where
  "json_loads s =
     (case scan_once (2 * length s + 1) (skip_ws s) of
        None \<Rightarrow> Inl JSONDecodeError
      | Some (v, r) \<Rightarrow> if skip_ws r = [] then Inr v else Inl JSONDecodeError)"

section \<open>The ratings normaliser\<close>

text \<open>
  \<^verbatim>\<open>Command.parse_ratings\<close> (import_poi.py, lines 359-378). \<open>float_items\<close> is the list
  comprehension \<^verbatim>\<open>[float(x.strip()) for x in ... if x]\<close> after its filter: the first piece
  that is no float raises.
\<close>

fun float_items :: "string list \<Rightarrow> error + pyval list" where
  "float_items [] = Inr []"
| "float_items (x # xs) =
     (case py_float (strip x) of
        Inl e \<Rightarrow> Inl e
      | Inr f \<Rightarrow> (case float_items xs of Inl e \<Rightarrow> Inl e | Inr fs \<Rightarrow> Inr (PFloat f # fs)))"

definition parse_ratings :: "pyval \<Rightarrow> error + pyval" where
  "parse_ratings ratings_data =
     (case ratings_data of
        PList xs \<Rightarrow> Inr ratings_data
      | PStr s \<Rightarrow>
          (case json_loads s of
             Inr v \<Rightarrow> Inr v
           | Inl e \<Rightarrow>
               if e = JSONDecodeError then
                 (case float_items (filter (\<lambda>x. x \<noteq> []) (split_on (CHR '','') (strip_chars ''{}'' s))) of
                    Inr fs \<Rightarrow> Inr (PList fs)
                  | Inl e1 \<Rightarrow>
                      if is_ValueError e1 then
                        (case py_float s of
                           Inr f \<Rightarrow> Inr (PList [PFloat f])
                         | Inl e2 \<Rightarrow> if is_ValueError e2 then Inr (PList []) else Inl e2)
                      else Inl e1)
               else Inl e)
      | _ \<Rightarrow> Inr (PList []))"

section \<open>The stored record\<close>

text \<open>
  \<^verbatim>\<open>Decimal(value)\<close> as the parsers call it, on a string or on \<^verbatim>\<open>None\<close>: surrounding whitespace
  and all underscores are dropped, a malformed numeral raises \<^verbatim>\<open>InvalidOperation\<close>, \<^verbatim>\<open>None\<close>
  raises \<^verbatim>\<open>TypeError\<close>. A finite decimal is the rational it denotes; the payload of a NaN and
  the limits of the exponent are not modelled.
\<close>

datatype pydecimal = Dec rat | DecInf bool | DecNaN

definition is_nan_text :: "string \<Rightarrow> bool" where
  "is_nan_text l =
     ((take 3 l = ''nan'' \<and> list_all is_digit (drop 3 l))
      \<or> (take 4 l = ''snan'' \<and> list_all is_digit (drop 4 l)))"

definition Decimal :: "string option \<Rightarrow> error + pydecimal" where
  "Decimal v =
     (case v of
        None \<Rightarrow> Inl TypeError
      | Some s \<Rightarrow>
          (case split_sign (filter (\<lambda>c. c \<noteq> CHR ''_'') (strip s)) of (neg, r) \<Rightarrow>
             if lower r = ''inf'' \<or> lower r = ''infinity'' then Inr (DecInf neg)
             else if is_nan_text (lower r) then Inr DecNaN
             else (case floatnumber r of
                     None \<Rightarrow> Inl InvalidOperation
                   | Some q \<Rightarrow> Inr (Dec (if neg then - q else q)))))"

text \<open>
  \<^verbatim>\<open>PointOfInterest\<close> (models.py). \<open>poi_data\<close> is the dictionary a parser builds for one record:
  the six fields every format supplies and the key \<^verbatim>\<open>description\<close>, which only the JSON
  parser supplies. The timestamps, which the store sets itself, are left out.
\<close>

record poi_fields =
  external_id :: pyval
  name :: pyval
  latitude :: pydecimal
  longitude :: pydecimal
  category :: pyval
  ratings :: pyval

record poi_data = poi_fields +
  description_key :: "pyval option"

record poi = poi_fields +
  internal_id :: nat
  description :: pyval

subsection \<open>\<^verbatim>\<open>average_rating\<close>\<close>










section \<open>The outside world\<close>

text \<open>
  What the command reads from its surroundings is a parameter of the model: the answer of
  \<^verbatim>\<open>requests.get\<close>, the text of a local file, the rows \<^verbatim>\<open>csv.DictReader\<close> yields for given
  lines, the trees of \<^verbatim>\<open>ET.fromstring\<close> and \<^verbatim>\<open>ET.parse\<close>, the text \<^verbatim>\<open>str()\<close> gives for a float or
  a container, and the error, if any, with which the database refuses to write a row.
\<close>

datatype element = Element (tag: string) (elem_text: "string option") (children: "element list")

text \<open>An iterator: it ends, yields an item and goes on, or raises.\<close>

datatype 'a iter = Stop | Yield 'a "'a iter" | Raise error

fun iter_of :: "'a list \<Rightarrow> 'a iter" where
  "iter_of [] = Stop"
| "iter_of (x # xs) = Yield x (iter_of xs)"

text \<open>A CSV row is a \<^verbatim>\<open>dict\<close> from column names to text, or to \<^verbatim>\<open>None\<close> where the row is short.\<close>

type_synonym csv_row = "string \<rightharpoonup> string option"

record response =
  status_code :: nat
  content_type_header :: "string option"
  body :: string

record env =
  requests_get :: "string \<Rightarrow> error + response"
  open_file :: "string \<Rightarrow> error + string"
  csv_DictReader :: "string list \<Rightarrow> csv_row iter"
  fromstring :: "string \<Rightarrow> error + element"
  ET_parse :: "string \<Rightarrow> error + element"
  repr :: "pyval \<Rightarrow> string"
  db_fault :: "poi \<Rightarrow> error option"

datatype fmt = CSV | JSON | XML

text \<open>
  The lines the command writes, by their fixed part: the per-source line, the error line
  and the totals line of \<^verbatim>\<open>handle\<close>, and the notices and warnings of the parsers.
\<close>

datatype message =
    Processed string nat nat nat
  | ErrorProcessing string error
  | Total nat nat nat
  | Downloading string
  | EmptyCSV string
  | MissingField fmt "string option" error
  | RecordError fmt "string option" error
  | XMLParsingFailed error
  | ErrorSaving pyval error

text \<open>The state the command changes: the table, keyed by the unique \<^verbatim>\<open>external_id\<close>, and the output.\<close>

record state =
  db :: "pyval \<rightharpoonup> poi"
  next_id :: nat
  out :: "message list"

definition stdout_write :: "message \<Rightarrow> state \<Rightarrow> state" where
  "stdout_write m st = st\<lparr>out := out st @ [m]\<rparr>"

section \<open>The reconciler\<close>

text \<open>
  \<^verbatim>\<open>objects.get_or_create(external_id=..., defaults=poi_data)\<close>: the row with this
  \<^verbatim>\<open>external_id\<close>, or a new row from \<open>poi_data\<close> with the field default \<^verbatim>\<open>None\<close> for a missing
  description. \<^verbatim>\<open>poi.save()\<close> writes the row back. A write the database refuses raises and
  changes nothing.
\<close>

definition new_poi :: "nat \<Rightarrow> poi_data \<Rightarrow> poi" where
  "new_poi n d =
     \<lparr>external_id = external_id d, name = name d, latitude = latitude d, longitude = longitude d,
      category = category d, ratings = ratings d, internal_id = n,
      description = (case description_key d of None \<Rightarrow> PNone | Some v \<Rightarrow> v)\<rparr>"

definition get_or_create :: "env \<Rightarrow> poi_data \<Rightarrow> state \<Rightarrow> (error + poi \<times> bool) \<times> state" where
  "get_or_create env d st =
     (case db st (external_id d) of
        Some p \<Rightarrow> (Inr (p, False), st)
      | None \<Rightarrow>
          (case db_fault env (new_poi (next_id st) d) of
             Some e \<Rightarrow> (Inl e, st)
           | None \<Rightarrow>
               (Inr (new_poi (next_id st) d, True),
                st\<lparr>db := (db st)(external_id d \<mapsto> new_poi (next_id st) d),
                   next_id := Suc (next_id st)\<rparr>)))"

text \<open>\<^verbatim>\<open>for field, value in poi_data.items(): setattr(poi, field, value)\<close>\<close>

definition setattrs :: "poi \<Rightarrow> poi_data \<Rightarrow> poi" where
  "setattrs p d =
     p\<lparr>external_id := external_id d, name := name d, latitude := latitude d,
       longitude := longitude d, category := category d, ratings := ratings d,
       description := (case description_key d of None \<Rightarrow> description p | Some v \<Rightarrow> v)\<rparr>"

definition save :: "env \<Rightarrow> poi \<Rightarrow> state \<Rightarrow> (error + unit) \<times> state" where
  "save env p st =
     (case db_fault env p of
        Some e \<Rightarrow> (Inl e, st)
      | None \<Rightarrow> (Inr (), st\<lparr>db := (db st)(external_id p \<mapsto> p)\<rparr>))"

text \<open>
  \<^verbatim>\<open>Command.save_poi\<close> (import_poi.py, lines 380-404): the triple is
  \<open>(imported, skipped, updated)\<close>.
\<close>

definition save_poi :: "env \<Rightarrow> poi_data \<Rightarrow> bool \<Rightarrow> state \<Rightarrow> (nat \<times> nat \<times> nat) \<times> state" where
  "save_poi env poi_data update_existing st =
     (case get_or_create env poi_data st of
        (Inl e, st1) \<Rightarrow> ((0, 1, 0), stdout_write (ErrorSaving (external_id poi_data) e) st1)
      | (Inr (p, created), st1) \<Rightarrow>
          if created then ((1, 0, 0), st1)
          else if update_existing then
            (case save env (setattrs p poi_data) st1 of
               (Inl e, st2) \<Rightarrow> ((0, 1, 0), stdout_write (ErrorSaving (external_id poi_data) e) st2)
             | (Inr u, st2) \<Rightarrow> ((0, 0, 1), st2))
          else ((0, 1, 0), st1))"

section \<open>The format parsers\<close>

subsection \<open>One record\<close>

definition of_text :: "string option \<Rightarrow> pyval" where
  "of_text t = (case t of None \<Rightarrow> PNone | Some s \<Rightarrow> PStr s)"

text \<open>\<^verbatim>\<open>row[key]\<close> on a CSV row.\<close>

definition row_get :: "csv_row \<Rightarrow> string \<Rightarrow> error + string option" where
  "row_get row k = (case row k of None \<Rightarrow> Inl (KeyError k) | Some v \<Rightarrow> Inr v)"

text \<open>The dictionary built from one CSV row (lines 120-127 and 268-275), field by field.\<close>

definition csv_poi_data :: "csv_row \<Rightarrow> error + poi_data" where
  "csv_poi_data row =
     bind (row_get row ''poi_id'') (\<lambda>pid.
     bind (row_get row ''poi_name'') (\<lambda>pname.
     bind (row_get row ''poi_latitude'') (\<lambda>lat_text.
     bind (Decimal lat_text) (\<lambda>lat.
     bind (row_get row ''poi_longitude'') (\<lambda>lon_text.
     bind (Decimal lon_text) (\<lambda>lon.
     bind (row_get row ''poi_category'') (\<lambda>pcategory.
     bind (row_get row ''poi_ratings'') (\<lambda>pratings.
     bind (parse_ratings (of_text pratings)) (\<lambda>rs.
       Inr \<lparr>external_id = of_text pid, name = of_text pname, latitude = lat, longitude = lon,
            category = of_text pcategory, ratings = rs, description_key = None\<rparr>)))))))))"

text \<open>\<^verbatim>\<open>element.find(tag)\<close>, the first child with the tag, and \<^verbatim>\<open>element.find(tag).text\<close>.\<close>

definition find_child :: "element \<Rightarrow> string \<Rightarrow> element option" where
  "find_child e t = List.find (\<lambda>c. tag c = t) (children e)"

definition child_text :: "element \<Rightarrow> string \<Rightarrow> error + string option" where
  "child_text e t = (case find_child e t of None \<Rightarrow> Inl AttributeError | Some c \<Rightarrow> Inr (elem_text c))"

text \<open>The dictionary built from one XML element (lines 224-231 and 327-334).\<close>

definition xml_poi_data :: "element \<Rightarrow> error + poi_data" where
  "xml_poi_data poi_element =
     bind (child_text poi_element ''pid'') (\<lambda>pid.
     bind (child_text poi_element ''pname'') (\<lambda>pname.
     bind (child_text poi_element ''platitude'') (\<lambda>lat_text.
     bind (Decimal lat_text) (\<lambda>lat.
     bind (child_text poi_element ''plongitude'') (\<lambda>lon_text.
     bind (Decimal lon_text) (\<lambda>lon.
     bind (child_text poi_element ''pcategory'') (\<lambda>pcategory.
     bind (child_text poi_element ''pratings'') (\<lambda>pratings.
     bind (parse_ratings (of_text pratings)) (\<lambda>rs.
       Inr \<lparr>external_id = of_text pid, name = of_text pname, latitude = lat, longitude = lon,
            category = of_text pcategory, ratings = rs, description_key = None\<rparr>)))))))))"

text \<open>\<^verbatim>\<open>item[key]\<close> on a decoded JSON value with a string key, and \<^verbatim>\<open>str(value)\<close>.\<close>

definition getitem :: "pyval \<Rightarrow> string \<Rightarrow> error + pyval" where
  "getitem v k =
     (case v of
        PDict d \<Rightarrow> (case map_of d k of None \<Rightarrow> Inl (KeyError k) | Some x \<Rightarrow> Inr x)
      | _ \<Rightarrow> Inl TypeError)"

definition py_str :: "env \<Rightarrow> pyval \<Rightarrow> string" where
  "py_str env v = (case v of PStr s \<Rightarrow> s | _ \<Rightarrow> repr env v)"

text \<open>The dictionary built from one JSON item (lines 167-175).\<close>

definition json_poi_data :: "env \<Rightarrow> pyval \<Rightarrow> error + poi_data" where
  "json_poi_data env item =
     bind (getitem item ''id'') (\<lambda>pid.
     bind (getitem item ''name'') (\<lambda>pname.
     bind (getitem item ''coordinates'') (\<lambda>c1.
     bind (getitem c1 ''latitude'') (\<lambda>lat_value.
     bind (Decimal (Some (py_str env lat_value))) (\<lambda>lat.
     bind (getitem item ''coordinates'') (\<lambda>c2.
     bind (getitem c2 ''longitude'') (\<lambda>lon_value.
     bind (Decimal (Some (py_str env lon_value))) (\<lambda>lon.
     bind (getitem item ''category'') (\<lambda>pcategory.
     bind (getitem item ''ratings'') (\<lambda>pratings.
     bind (parse_ratings pratings) (\<lambda>rs.
       Inr \<lparr>external_id = PStr (py_str env pid), name = pname, latitude = lat, longitude = lon,
            category = pcategory, ratings = rs,
            description_key =
              Some (case getitem item ''description'' of Inr v \<Rightarrow> v | Inl e \<Rightarrow> PStr [])\<rparr>)))))))))))"

subsection \<open>The loop over the records of one source\<close>

text \<open>
  The body of the \<^verbatim>\<open>for\<close> loop that all five parsers share: build the dictionary, save it and
  add the triple; on \<^verbatim>\<open>KeyError\<close> (\<^verbatim>\<open>AttributeError\<close> for XML) or on any other exception,
  warn and add one to \<^verbatim>\<open>skipped\<close>. \<open>src\<close> is the source named in the warning, if any.
\<close>

definition missing_field :: "fmt \<Rightarrow> error \<Rightarrow> bool" where
  "missing_field f e =
     (case f of
        XML \<Rightarrow> e = AttributeError
      | _ \<Rightarrow> (case e of KeyError k \<Rightarrow> True | _ \<Rightarrow> False))"

definition record_step ::
  "env \<Rightarrow> bool \<Rightarrow> fmt \<Rightarrow> string option \<Rightarrow> error + poi_data \<Rightarrow> nat \<times> nat \<times> nat \<Rightarrow> state
    \<Rightarrow> (nat \<times> nat \<times> nat) \<times> state" where
  "record_step env update_existing f src r c st =
     (case c of (imported, skipped, updated) \<Rightarrow>
        (case r of
           Inr poi_data \<Rightarrow>
             (case save_poi env poi_data update_existing st of
                ((imported_count, skipped_count, updated_count), st') \<Rightarrow>
                  ((imported + imported_count, skipped + skipped_count, updated + updated_count), st'))
         | Inl e \<Rightarrow>
             ((imported, skipped + 1, updated),
              stdout_write (if missing_field f e then MissingField f src e else RecordError f src e) st)))"

fun import_loop ::
  "env \<Rightarrow> bool \<Rightarrow> fmt \<Rightarrow> string option \<Rightarrow> ('a \<Rightarrow> error + poi_data) \<Rightarrow> 'a iter \<Rightarrow> nat \<times> nat \<times> nat
    \<Rightarrow> state \<Rightarrow> (error + nat \<times> nat \<times> nat) \<times> state" where
  "import_loop env update_existing f src build Stop c st = (Inr c, st)"
| "import_loop env update_existing f src build (Raise e) c st = (Inl e, st)"
| "import_loop env update_existing f src build (Yield x rest) c st =
     (case record_step env update_existing f src (build x) c st of
        (c', st') \<Rightarrow> import_loop env update_existing f src build rest c' st')"

subsection \<open>The five parsers\<close>

text \<open>\<^verbatim>\<open>content.splitlines()\<close>: the lines without their ends; and the lines of an open text file.\<close>

definition is_linebreak :: "char \<Rightarrow> bool" where
  "is_linebreak c =
     ((10 \<le> (of_char c :: nat) \<and> (of_char c :: nat) \<le> 13)
      \<or> (28 \<le> (of_char c :: nat) \<and> (of_char c :: nat) \<le> 30))"

fun splitlines_from :: "string \<Rightarrow> string \<Rightarrow> string list" where
  "splitlines_from cur [] = (if cur = [] then [] else [rev cur])"
| "splitlines_from cur [c] = (if is_linebreak c then [rev cur] else [rev (c # cur)])"
| "splitlines_from cur (c # d # cs) =
     (if c = CHR 0x0D \<and> d = CHR 0x0A then rev cur # splitlines_from [] cs
      else if is_linebreak c then rev cur # splitlines_from [] (d # cs)
      else splitlines_from (c # cur) (d # cs))"

definition splitlines :: "string \<Rightarrow> string list" where
  "splitlines s = splitlines_from [] s"

fun file_lines :: "string \<Rightarrow> string list" where
  "file_lines [] = []"
| "file_lines (c # cs) =
     (if c = CHR 0x0A then [c] # file_lines cs
      else (case file_lines cs of [] \<Rightarrow> [[c]] | l # ls \<Rightarrow> (c # l) # ls))"

text \<open>\<^verbatim>\<open>import_csv_from_content\<close> (lines 103-150).\<close>

definition import_csv_from_content ::
  "env \<Rightarrow> string \<Rightarrow> bool \<Rightarrow> string \<Rightarrow> state \<Rightarrow> (error + nat \<times> nat \<times> nat) \<times> state" where
  "import_csv_from_content env content update_existing source_name st =
     (case (if splitlines content = []
            then (Inr (0, 0, 0), stdout_write (EmptyCSV source_name) st)
            else import_loop env update_existing CSV (Some source_name) csv_poi_data
                   (csv_DictReader env (splitlines content)) (0, 0, 0) st) of
        (Inl e, st') \<Rightarrow> (Inl (CommandError ''Error processing CSV content''), st')
      | (Inr c, st') \<Rightarrow> (Inr c, st'))"

text \<open>
  \<^verbatim>\<open>import_json_from_content\<close> (lines 152-200). \<open>json_items\<close> is what \<^verbatim>\<open>for item in data\<close>
  runs over: a single object is wrapped, a string gives its characters, and a value that
  cannot be iterated raises \<^verbatim>\<open>TypeError\<close>.
\<close>

definition json_items :: "pyval \<Rightarrow> error + pyval list" where
  "json_items data =
     (case data of
        PDict d \<Rightarrow> Inr [data]
      | PList xs \<Rightarrow> Inr xs
      | PStr s \<Rightarrow> Inr (map (\<lambda>c. PStr [c]) s)
      | _ \<Rightarrow> Inl TypeError)"

definition import_json_from_content ::
  "env \<Rightarrow> string \<Rightarrow> bool \<Rightarrow> string \<Rightarrow> state \<Rightarrow> (error + nat \<times> nat \<times> nat) \<times> state" where
  "import_json_from_content env content update_existing source_name st =
     (case json_loads content of
        Inl e \<Rightarrow>
          (Inl (CommandError (if e = JSONDecodeError then ''Invalid JSON content''
                              else ''Error processing JSON content'')), st)
      | Inr data \<Rightarrow>
          (case json_items data of
             Inl e \<Rightarrow> (Inl (CommandError ''Error processing JSON content''), st)
           | Inr items \<Rightarrow>
               (case import_loop env update_existing JSON (Some source_name) (json_poi_data env)
                       (iter_of items) (0, 0, 0) st of
                  (Inl e, st') \<Rightarrow> (Inl (CommandError ''Error processing JSON content''), st')
                | (Inr c, st') \<Rightarrow> (Inr c, st'))))"

text \<open>
  \<^verbatim>\<open>root.findall('.//tag')\<close>: the elements below the root with this tag, in document order.
  \<open>first_nonempty\<close> is the chain of \<^verbatim>\<open>or\<close> between the searches, with the root itself as the
  last resort (\<^verbatim>\<open>if not poi_elements: poi_elements = [root]\<close>).
\<close>

fun descendants :: "element \<Rightarrow> element list" where
  "descendants (Element t x cs) = concat (map (\<lambda>c. c # descendants c) cs)"

definition findall :: "element \<Rightarrow> string \<Rightarrow> element list" where
  "findall root_elem t = filter (\<lambda>e. tag e = t) (descendants root_elem)"

fun first_nonempty :: "element \<Rightarrow> string list \<Rightarrow> element list" where
  "first_nonempty root_elem [] = [root_elem]"
| "first_nonempty root_elem (t # ts) =
     (if findall root_elem t \<noteq> [] then findall root_elem t else first_nonempty root_elem ts)"

text \<open>
  \<^verbatim>\<open>import_xml_from_content\<close> (lines 202-255). Its handler catches \<^verbatim>\<open>ET.ParseError\<close>,
  \<^verbatim>\<open>AttributeError\<close> and \<^verbatim>\<open>ValueError\<close>, writes a notice and falls through to the \<^verbatim>\<open>return\<close>,
  with the counters as they stand, which is zero before the loop. The function raises
  \<^verbatim>\<open>ET.ParseError\<close> itself when the list of elements is empty (lines 219-220).
\<close>

definition import_xml_from_content ::
  "env \<Rightarrow> string \<Rightarrow> bool \<Rightarrow> string \<Rightarrow> state \<Rightarrow> (error + nat \<times> nat \<times> nat) \<times> state" where
  "import_xml_from_content env content update_existing source_name st =
     (case fromstring env content of
        Inl e \<Rightarrow>
          if e = ParseError \<or> e = AttributeError \<or> is_ValueError e
          then (Inr (0, 0, 0), stdout_write (XMLParsingFailed e) st)
          else (Inl e, st)
      | Inr root_elem \<Rightarrow>
          if first_nonempty root_elem [''poi'', ''point'', ''item'', ''DATA_RECORD''] = []
          then (Inr (0, 0, 0), stdout_write (XMLParsingFailed ParseError) st)
          else
            import_loop env update_existing XML (Some source_name) xml_poi_data
              (iter_of (first_nonempty root_elem [''poi'', ''point'', ''item'', ''DATA_RECORD'']))
              (0, 0, 0) st)"

text \<open>\<^verbatim>\<open>import_csv\<close> (lines 257-295): nothing is caught around the loop.\<close>

definition import_csv ::
  "env \<Rightarrow> string \<Rightarrow> bool \<Rightarrow> state \<Rightarrow> (error + nat \<times> nat \<times> nat) \<times> state" where
  "import_csv env file_path update_existing st =
     (case open_file env file_path of
        Inl e \<Rightarrow> (Inl e, st)
      | Inr content \<Rightarrow>
          import_loop env update_existing CSV None csv_poi_data
            (csv_DictReader env (file_lines content)) (0, 0, 0) st)"

text \<open>\<^verbatim>\<open>import_json\<close> (lines 297-306).\<close>

definition import_json ::
  "env \<Rightarrow> string \<Rightarrow> bool \<Rightarrow> state \<Rightarrow> (error + nat \<times> nat \<times> nat) \<times> state" where
  "import_json env file_path update_existing st =
     (case open_file env file_path of
        Inl e \<Rightarrow> (Inl e, st)
      | Inr content \<Rightarrow> import_json_from_content env content update_existing file_path st)"

text \<open>\<^verbatim>\<open>import_xml\<close> (lines 308-357): \<^verbatim>\<open>ET.ParseError\<close> becomes a \<^verbatim>\<open>CommandError\<close>.\<close>

definition import_xml ::
  "env \<Rightarrow> string \<Rightarrow> bool \<Rightarrow> state \<Rightarrow> (error + nat \<times> nat \<times> nat) \<times> state" where
  "import_xml env file_path update_existing st =
     (case ET_parse env file_path of
        Inl e \<Rightarrow> (Inl (if e = ParseError then CommandError ''Invalid XML file'' else e), st)
      | Inr root_elem \<Rightarrow>
          import_loop env update_existing XML None xml_poi_data
            (iter_of (first_nonempty root_elem [''poi'', ''point'', ''item''])) (0, 0, 0) st)"

section \<open>Choosing the parser\<close>

definition startswith :: "string \<Rightarrow> string \<Rightarrow> bool" where
  "startswith s pre = (take (length pre) s = pre)"

definition endswith :: "string \<Rightarrow> string \<Rightarrow> bool" where
  "endswith s suf = (length suf \<le> length s \<and> drop (length s - length suf) s = suf)"

text \<open>\<^verbatim>\<open>sub in s\<close> for strings.\<close>

fun contains :: "string \<Rightarrow> string \<Rightarrow> bool" where
  "contains sub [] = (sub = [])"
| "contains sub (c # cs) = (take (length sub) (c # cs) = sub \<or> contains sub cs)"

text \<open>
  The choice in \<^verbatim>\<open>import_from_url\<close> (lines 87-96), an \<^verbatim>\<open>if\<close>/\<^verbatim>\<open>elif\<close> chain over the lowered
  content type and the lowered URL; \<open>None\<close> is its \<^verbatim>\<open>else\<close> branch.
\<close>

definition url_format :: "string \<Rightarrow> string \<Rightarrow> fmt option" where
  "url_format content_type url =
     (if contains ''csv'' content_type \<or> endswith (lower url) ''.csv'' then Some CSV
      else if contains ''json'' content_type \<or> endswith (lower url) ''.json'' then Some JSON
      else if contains ''xml'' content_type \<or> endswith (lower url) ''.xml'' then Some XML
      else None)"

text \<open>
  \<^verbatim>\<open>import_from_url\<close> (lines 79-101): \<^verbatim>\<open>raise_for_status\<close> raises on a 4xx or 5xx status, and
  whatever is raised inside leaves as a \<^verbatim>\<open>CommandError\<close>.
\<close>

definition url_error :: "error \<Rightarrow> error" where
  "url_error e =
     CommandError (if e = RequestException then ''Failed to download from URL'' else ''Error processing URL'')"

definition import_from_url ::
  "env \<Rightarrow> string \<Rightarrow> bool \<Rightarrow> state \<Rightarrow> (error + nat \<times> nat \<times> nat) \<times> state" where
  "import_from_url env url update_existing st =
     (case (case requests_get env url of
              Inl e \<Rightarrow> (Inl e, stdout_write (Downloading url) st)
            | Inr response \<Rightarrow>
                if 400 \<le> status_code response \<and> status_code response < 600
                then (Inl RequestException, stdout_write (Downloading url) st)
                else
                  (case url_format (lower (case content_type_header response of None \<Rightarrow> [] | Some t \<Rightarrow> t)) url of
                     Some CSV \<Rightarrow>
                       import_csv_from_content env (body response) update_existing url
                         (stdout_write (Downloading url) st)
                   | Some JSON \<Rightarrow>
                       import_json_from_content env (body response) update_existing url
                         (stdout_write (Downloading url) st)
                   | Some XML \<Rightarrow>
                       import_xml_from_content env (body response) update_existing url
                         (stdout_write (Downloading url) st)
                   | None \<Rightarrow>
                       (Inl (CommandError ''Could not determine file type for URL''),
                        stdout_write (Downloading url) st))) of
        (Inl e, st') \<Rightarrow> (Inl (url_error e), st')
      | (Inr c, st') \<Rightarrow> (Inr c, st'))"

text \<open>\<^verbatim>\<open>Path(file_path).suffix\<close>: the last component of the path, from its last dot on.\<close>

definition path_name :: "string \<Rightarrow> string" where
  "path_name p =
     (case filter (\<lambda>c. c \<noteq> [] \<and> c \<noteq> ''.'') (split_on (CHR ''/'') p) of
        [] \<Rightarrow> []
      | c # cs \<Rightarrow> last (c # cs))"

definition path_suffix :: "string \<Rightarrow> string" where
  "path_suffix p =
     (let n = path_name p; k = length (takeWhile (\<lambda>c. c \<noteq> CHR ''.'') (rev n))
      in if CHR ''.'' \<in> set n \<and> 0 < k \<and> Suc k < length n then drop (length n - Suc k) n else [])"

text \<open>\<^verbatim>\<open>import_file\<close> (lines 60-77).\<close>

definition import_file ::
  "env \<Rightarrow> string \<Rightarrow> bool \<Rightarrow> state \<Rightarrow> (error + nat \<times> nat \<times> nat) \<times> state" where
  "import_file env file_path update_existing st =
     (if startswith file_path ''http://'' \<or> startswith file_path ''https://''
      then import_from_url env file_path update_existing st
      else if lower (path_suffix file_path) = ''.csv'' then import_csv env file_path update_existing st
      else if lower (path_suffix file_path) = ''.json'' then import_json env file_path update_existing st
      else if lower (path_suffix file_path) = ''.xml'' then import_xml env file_path update_existing st
      else (Inl (CommandError ''Unsupported file format''), st))"

section \<open>The orchestrator\<close>



section \<open>Notions used in the properties\<close>



text \<open>
  A world for the examples: no network, no files, a database that accepts every row; and
  the state of an empty table with nothing written yet.
\<close>

definition offline :: env where
  "offline =
     \<lparr>requests_get = (\<lambda>url. Inl RequestException), open_file = (\<lambda>path. Inl OSError),
      csv_DictReader = (\<lambda>lines. Stop), fromstring = (\<lambda>content. Inl ParseError),
      ET_parse = (\<lambda>path. Inl OSError), repr = (\<lambda>v. []), db_fault = (\<lambda>row. None)\<rparr>"

definition initial :: state where
  "initial = \<lparr>db = Map.empty, next_id = 1, out = []\<rparr>"








definition data_record_doc :: element where
  "data_record_doc =
     Element ''DATA'' None
       [Element ''DATA_RECORD'' None
          [Element ''pid'' (Some ''7'') [], Element ''pname'' (Some ''Cafe'') [],
           Element ''platitude'' (Some ''1.5'') [], Element ''plongitude'' (Some ''2.5'') [],
           Element ''pcategory'' (Some ''food'') [], Element ''pratings'' (Some ''{4,5}'') []]]"

text \<open>The number of items an iterator yields before it ends or raises.\<close>

fun iter_len :: "'a iter \<Rightarrow> nat" where
  "iter_len Stop = 0"
| "iter_len (Raise e) = 0"
| "iter_len (Yield x rest) = Suc (iter_len rest)"

text \<open>
  The database refuses the write that \<open>save_poi\<close> attempts for this record: the insert of
  a new record, or the update of a stored one.
\<close>

definition store_refuses :: "env \<Rightarrow> bool \<Rightarrow> poi_data \<Rightarrow> state \<Rightarrow> error \<Rightarrow> bool" where
  "store_refuses env update_existing d st e =
     (case db st (external_id d) of
        None \<Rightarrow> db_fault env (new_poi (next_id st) d) = Some e
      | Some p \<Rightarrow> update_existing \<and> db_fault env (setattrs p d) = Some e)"

text \<open>The warning for a record that could not be built.\<close>

definition record_warning :: "fmt \<Rightarrow> string option \<Rightarrow> error \<Rightarrow> message" where
  "record_warning f src e = (if missing_field f e then MissingField f src e else RecordError f src e)"

text \<open>Adding a triple to the result of a loop.\<close>

definition shift :: "nat \<times> nat \<times> nat \<Rightarrow> (error + nat \<times> nat \<times> nat) \<times> state \<Rightarrow> (error + nat \<times> nat \<times> nat) \<times> state" where
  "shift c r =
     (case c of (a, b, c') \<Rightarrow>
        (case r of
           (Inr (i, s, u), st) \<Rightarrow> (Inr (a + i, b + s, c' + u), st)
         | (Inl e, st) \<Rightarrow> (Inl e, st)))"

text \<open>
  Three CSV rows, the second without a latitude, a reader that yields them, and a file
  system with one CSV file.
\<close>

definition csv_row_of :: "string \<Rightarrow> string option \<Rightarrow> csv_row" where
  "csv_row_of pid lat =
     [''poi_id'' \<mapsto> Some pid, ''poi_name'' \<mapsto> Some ''Cafe'', ''poi_latitude'' \<mapsto> lat,
      ''poi_longitude'' \<mapsto> Some ''2.5'', ''poi_category'' \<mapsto> Some ''food'',
      ''poi_ratings'' \<mapsto> Some ''{4,5}'']"

definition three_rows :: env where
  "three_rows =
     offline\<lparr>open_file := (\<lambda>path. if path = ''pois.csv'' then Inr ''...'' else Inl OSError),
             csv_DictReader :=
               (\<lambda>lines. Yield (csv_row_of ''1'' (Some ''1.5''))
                          (Yield (csv_row_of ''2'' None)
                            (Yield (csv_row_of ''3'' (Some ''1.5'')) Stop)))\<rparr>"






section \<open>Evaluating the library functions\<close>

lemma first_nonempty_not_empty: "first_nonempty doc ts \<noteq> []"
  by (induction ts) simp_all

lemma bind_Inr: "bind (Inr x) f = f x"
  by (simp add: bind_def)

lemma bind_Inl: "bind (Inl e) f = Inl e"
  by (simp add: bind_def)

lemma float_limit_big: "(1000000::rat) < float_limit"
proof -
  have "(2::rat) ^ 970 * 2 \<le> 2 ^ 970 * 2 ^ 54"
    by (intro mult_left_mono) simp_all
  then have a: "(2::rat) ^ 971 \<le> 2 ^ 1024"
    by (simp add: power_add[symmetric])
  have "(1000000::rat) < 2 ^ 20"
    by simp
  also have "\<dots> \<le> 2 ^ 970"
    by (rule power_increasing) simp_all
  finally have b: "(1000000::rat) < 2 ^ 970" .
  have "(2::rat) ^ 971 = 2 * 2 ^ 970"
    by simp
  with a b show ?thesis
    unfolding float_limit_def by linarith
qed

lemma to_float_small: "- 1000000 \<le> q \<Longrightarrow> q \<le> 1000000 \<Longrightarrow> to_float q = Fin q"
  using float_limit_big unfolding to_float_def by auto

lemmas json_eval = json_loads_def skip_ws_def json_ws_def json_number_def json_exponent_def
  json_int_part_def json_frac_part_def
  is_digit_def nat_of_digits_def digit_val_def split_sign_def to_float_small eval_nat_numeral

lemmas float_eval = py_float_def strip_with_def strip_def strip_chars_def c_isspace_def
  py_isspace_def split_sign_def lower_def lower_char_def floatnumber_def exponent_part_def
  is_digit_def nat_of_digits_def digit_val_def to_float_small is_ValueError_def

lemma json_loads_single: "json_loads ''4.5'' = Inr (PFloat (Fin (9 / 2)))"
  by (simp add: json_eval)

lemma json_loads_array: "json_loads ''[1,2,3]'' = Inr (PList [PInt 1, PInt 2, PInt 3])"
  by (simp add: json_eval)

lemma json_loads_braces: "json_loads ''{1,2,3}'' = Inl JSONDecodeError"
  by (simp add: json_eval)

lemma json_loads_empty: "json_loads [] = Inl JSONDecodeError"
  by (simp add: json_eval)

lemma json_loads_garbage: "json_loads ''abc'' = Inl JSONDecodeError"
  by (simp add: json_eval)





section \<open>The ratings normaliser: properties\<close>



text \<open>
  The examples of the normaliser that hold: a JSON array, a brace-wrapped list, the empty
  string, text that is no number, and a list, which comes back as it is.
\<close>

lemma parse_ratings_examples:
  "parse_ratings (PStr ''[1,2,3]'') = Inr (PList [PInt 1, PInt 2, PInt 3])"
  "parse_ratings (PStr ''{1,2,3}'') = Inr (PList [PFloat (Fin 1), PFloat (Fin 2), PFloat (Fin 3)])"
  "parse_ratings (PStr []) = Inr (PList [])"
  "parse_ratings (PStr ''abc'') = Inr (PList [])"
  "parse_ratings (PList xs) = Inr (PList xs)"
  by (simp_all add: parse_ratings_def json_loads_array json_loads_braces json_loads_empty
      json_loads_garbage float_eval)

text \<open>
  C2. The string \<^verbatim>\<open>"4.5"\<close> is valid JSON, so \<^verbatim>\<open>json.loads\<close> answers first and \<open>parse_ratings\<close>
  returns the bare float 4.5; the branch that would build the one-element list \<^verbatim>\<open>[4.5]\<close>
  is never reached for it.
\<close>

theorem parse_ratings_bare_number:
  "parse_ratings (PStr ''4.5'') = Inr (PFloat (Fin (9 / 2)))"
  by (simp add: parse_ratings_def json_loads_single)




section \<open>The average rating: properties\<close>




















section \<open>The reconciler: properties\<close>








section \<open>Choosing the parser: properties\<close>




section \<open>The XML parsers: properties\<close>

text \<open>
  C4, as the claim states it, fails for a local file: \<^verbatim>\<open>import_xml\<close> turns the parse error into
  a \<^verbatim>\<open>CommandError\<close> and raises it.
\<close>

theorem import_xml_raises:
  "import_xml (offline\<lparr>ET_parse := (\<lambda>path. Inl ParseError)\<rparr>) ''broken.xml'' False initial
     = (Inl (CommandError ''Invalid XML file''), initial)"
  by (simp add: import_xml_def)

text \<open>
  C4, amended. For remote content that fails to parse, \<^verbatim>\<open>import_xml_from_content\<close> writes a
  notice and returns (0, 0, 0). For a local file that fails to parse, \<^verbatim>\<open>import_xml\<close> raises
  \<^verbatim>\<open>CommandError\<close> and changes nothing, and so does \<^verbatim>\<open>import_file\<close> on a path ending in
  \<^verbatim>\<open>.xml\<close>.
\<close>

theorem xml_parse_failure:
  "(fromstring env content = Inl ParseError \<longrightarrow>
      import_xml_from_content env content upd source_name st
        = (Inr (0, 0, 0), stdout_write (XMLParsingFailed ParseError) st))
   \<and> (ET_parse env path = Inl ParseError \<longrightarrow>
      import_xml env path upd st = (Inl (CommandError ''Invalid XML file''), st))
   \<and> (ET_parse env path = Inl ParseError \<and> lower (path_suffix path) = ''.xml''
        \<and> \<not> startswith path ''http://'' \<and> \<not> startswith path ''https://'' \<longrightarrow>
      import_file env path upd st = (Inl (CommandError ''Invalid XML file''), st))"
  by (simp add: import_xml_from_content_def import_xml_def import_file_def)

theorem xml_parse_failure_witness:
  "import_xml_from_content offline ''<poi>'' False ''http://example.com/a.xml'' initial
     = (Inr (0, 0, 0), stdout_write (XMLParsingFailed ParseError) initial)
   \<and> import_file (offline\<lparr>ET_parse := (\<lambda>path. Inl ParseError)\<rparr>) ''broken.xml'' False initial
     = (Inl (CommandError ''Invalid XML file''), initial)"
proof -
  have "lower (path_suffix ''broken.xml'') = ''.xml''"
    by (simp add: path_suffix_def path_name_def lower_def lower_char_def)
  moreover have "\<not> startswith ''broken.xml'' ''http://''" "\<not> startswith ''broken.xml'' ''https://''"
    by (simp_all add: startswith_def)
  ultimately show ?thesis
    using xml_parse_failure[where env = offline and content = "''<poi>''" and upd = False
        and source_name = "''http://example.com/a.xml''" and st = initial]
      xml_parse_failure[where env = "offline\<lparr>ET_parse := (\<lambda>path. Inl ParseError)\<rparr>"
        and path = "''broken.xml''" and upd = False and st = initial]
    by (simp add: offline_def)
qed

lemmas decimal_eval = Decimal_def strip_def strip_with_def py_isspace_def c_isspace_def
  split_sign_def lower_def lower_char_def is_nan_text_def floatnumber_def exponent_part_def
  is_digit_def nat_of_digits_def digit_val_def

lemma first_nonempty_local:
  "first_nonempty data_record_doc [''poi'', ''point'', ''item''] = [data_record_doc]"
  by (simp add: data_record_doc_def findall_def)

lemma first_nonempty_remote:
  "first_nonempty data_record_doc [''poi'', ''point'', ''item'', ''DATA_RECORD''] = children data_record_doc"
  by (simp add: data_record_doc_def findall_def)

lemma xml_poi_data_root: "xml_poi_data data_record_doc = Inl AttributeError"
  by (simp add: xml_poi_data_def child_text_def find_child_def data_record_doc_def bind_def)

lemma parse_ratings_braces45:
  "parse_ratings (PStr ''{4,5}'') = Inr (PList [PFloat (Fin 4), PFloat (Fin 5)])"
proof -
  have "json_loads ''{4,5}'' = Inl JSONDecodeError"
    by (simp add: json_eval)
  then show ?thesis
    by (simp add: parse_ratings_def float_eval)
qed

lemma xml_poi_data_record:
  "xml_poi_data (hd (children data_record_doc)) =
     Inr \<lparr>external_id = PStr ''7'', name = PStr ''Cafe'', latitude = Dec (3 / 2), longitude = Dec (5 / 2),
          category = PStr ''food'', ratings = PList [PFloat (Fin 4), PFloat (Fin 5)],
          description_key = None\<rparr>"
proof -
  have "Decimal (Some ''1.5'') = Inr (Dec (3 / 2))" "Decimal (Some ''2.5'') = Inr (Dec (5 / 2))"
    by (simp_all add: decimal_eval)
  then show ?thesis
    by (simp add: xml_poi_data_def child_text_def find_child_def data_record_doc_def bind_def
        of_text_def parse_ratings_braces45)
qed

lemma xml_examples:
  "fst (import_xml (offline\<lparr>ET_parse := (\<lambda>path. Inr data_record_doc)\<rparr>) ''data.xml'' False initial)
     = Inr (0, 1, 0)"
  "fst (import_xml_from_content (offline\<lparr>fromstring := (\<lambda>content. Inr data_record_doc)\<rparr>)
           ''<DATA>...</DATA>'' False ''http://example.com/data.xml'' initial)
     = Inr (1, 0, 0)"
proof -
  have "children data_record_doc = [hd (children data_record_doc)]"
    by (simp add: data_record_doc_def)
  then have r: "iter_of (children data_record_doc) = Yield (hd (children data_record_doc)) Stop"
    by (metis iter_of.simps)
  show "fst (import_xml (offline\<lparr>ET_parse := (\<lambda>path. Inr data_record_doc)\<rparr>) ''data.xml'' False initial)
     = Inr (0, 1, 0)"
    by (simp add: import_xml_def first_nonempty_local record_step_def xml_poi_data_root
        del: first_nonempty.simps)
  show "fst (import_xml_from_content (offline\<lparr>fromstring := (\<lambda>content. Inr data_record_doc)\<rparr>)
           ''<DATA>...</DATA>'' False ''http://example.com/data.xml'' initial)
     = Inr (1, 0, 0)"
    using first_nonempty_not_empty[of data_record_doc "[''poi'', ''point'', ''item'', ''DATA_RECORD'']"]
    by (simp add: import_xml_from_content_def first_nonempty_remote r record_step_def
        xml_poi_data_record save_poi_def get_or_create_def offline_def initial_def
        del: first_nonempty.simps)
qed

lemmas xml_local_example = xml_examples(1)

lemmas xml_remote_example = xml_examples(2)

text \<open>
  C6. For a document whose records are \<^verbatim>\<open>DATA_RECORD\<close> elements the two XML parsers part
  ways: \<^verbatim>\<open>import_xml_from_content\<close> finds the record and imports it, \<^verbatim>\<open>import_xml\<close> does not
  search for \<^verbatim>\<open>DATA_RECORD\<close>, takes the root for the only record and skips it.
\<close>

theorem import_xml_misses_data_record:
  "fst (import_xml (offline\<lparr>ET_parse := (\<lambda>path. Inr data_record_doc)\<rparr>) ''data.xml'' False initial)
     = Inr (0, 1, 0)
   \<and> fst (import_xml_from_content (offline\<lparr>fromstring := (\<lambda>content. Inr data_record_doc)\<rparr>)
           ''<DATA>...</DATA>'' False ''http://example.com/data.xml'' initial)
     = Inr (1, 0, 0)"
  using xml_local_example xml_remote_example by simp

section \<open>The loop over the records: properties\<close>

lemma save_poi_triple:
  "fst (save_poi env d upd st) = (1, 0, 0) \<or> fst (save_poi env d upd st) = (0, 1, 0)
   \<or> fst (save_poi env d upd st) = (0, 0, 1)"
  by (auto simp: save_poi_def get_or_create_def save_def split: option.splits)

lemma save_poi_refused:
  "store_refuses env upd d st e \<Longrightarrow>
     save_poi env d upd st = ((0, 1, 0), stdout_write (ErrorSaving (external_id d) e) st)"
  by (auto simp: store_refuses_def save_poi_def get_or_create_def save_def split: option.splits)

lemma record_step_failed:
  "record_step env upd f src (Inl e) (i, s, u) st = ((i, s + 1, u), stdout_write (record_warning f src e) st)"
  by (simp add: record_step_def record_warning_def)

lemma record_step_count:
  assumes "record_step env upd f src r (i, s, u) st = ((i', s', u'), st')"
  shows "i' + s' + u' = Suc (i + s + u)"
proof (cases r)
  case (Inl e)
  with assms show ?thesis by (auto simp: record_step_def)
next
  case (Inr d)
  obtain a b c st1 where s: "save_poi env d upd st = ((a, b, c), st1)"
    by (metis surj_pair)
  with save_poi_triple[of env d upd st] have "a + b + c = 1"
    by auto
  with assms Inr s show ?thesis by (auto simp: record_step_def)
qed

lemma import_loop_count:
  "import_loop env upd f src build it (i, s, u) st = (Inr (i', s', u'), st')
     \<Longrightarrow> i' + s' + u' = i + s + u + iter_len it"
proof (induction it arbitrary: i s u st)
  case Stop
  then show ?case by simp
next
  case (Raise e)
  then show ?case by simp
next
  case (Yield x rest)
  obtain i1 s1 u1 st1 where r: "record_step env upd f src (build x) (i, s, u) st = ((i1, s1, u1), st1)"
    by (metis surj_pair)
  then have "i1 + s1 + u1 = Suc (i + s + u)"
    by (rule record_step_count)
  moreover from Yield.prems r have "import_loop env upd f src build rest (i1, s1, u1) st1 = (Inr (i', s', u'), st')"
    by simp
  then have "i' + s' + u' = i1 + s1 + u1 + iter_len rest"
    by (rule Yield.IH)
  ultimately show ?case by simp
qed

lemma iter_len_of: "iter_len (iter_of xs) = length xs"
  by (induction xs) simp_all

lemma record_step_shift:
  "record_step env upd f src r (a + i, b + s, c + u) st =
     (case record_step env upd f src r (i, s, u) st of ((i', s', u'), st') \<Rightarrow> ((a + i', b + s', c + u'), st'))"
  by (auto simp: record_step_def split: sum.splits prod.splits)

lemma import_loop_shift:
  "import_loop env upd f src build it (a + i, b + s, c + u) st =
     shift (a, b, c) (import_loop env upd f src build it (i, s, u) st)"
proof (induction it arbitrary: i s u st)
  case Stop
  then show ?case by (simp add: shift_def)
next
  case (Raise e)
  then show ?case by (simp add: shift_def)
next
  case (Yield x rest)
  obtain i1 s1 u1 st1 where r: "record_step env upd f src (build x) (i, s, u) st = ((i1, s1, u1), st1)"
    by (metis surj_pair)
  then have "record_step env upd f src (build x) (a + i, b + s, c + u) st = ((a + i1, b + s1, c + u1), st1)"
    by (simp add: record_step_shift)
  with r Yield.IH[of i1 s1 u1 st1] show ?case by simp
qed

lemma csv_missing_latitude:
  assumes "row ''poi_id'' = Some a" "row ''poi_name'' = Some b"
    "row ''poi_latitude'' = None \<or> row ''poi_latitude'' = Some None \<or> row ''poi_latitude'' = Some (Some [])"
  shows "\<exists>e. csv_poi_data row = Inl e"
proof -
  have "Decimal None = Inl TypeError" "Decimal (Some []) = Inl InvalidOperation"
    by (simp_all add: Decimal_def strip_def strip_with_def split_sign_def lower_def is_nan_text_def
        floatnumber_def)
  with assms show ?thesis
    by (auto simp: csv_poi_data_def row_get_def bind_def)
qed

text \<open>
  C7. Inside the loop over the records of one source (the CSV loops of \<^verbatim>\<open>import_csv\<close> and
  \<^verbatim>\<open>import_csv_from_content\<close>, and those of the other parsers), a record that cannot be built
  (a missing field, a numeral that does not parse) or that the database refuses adds
  exactly one to \<^verbatim>\<open>skipped\<close>, leaves the table as it is, and the loop goes on with the
  records that follow: the result for the source is the result for the remaining records
  with one more skipped. A CSV row whose latitude is missing or empty is such a record.
\<close>

theorem failed_record_is_skipped:
  "(build x = Inl e \<longrightarrow>
      import_loop env upd f src build (Yield x rest) (i, s, u) st
        = import_loop env upd f src build rest (i, s + 1, u) (stdout_write (record_warning f src e) st)
      \<and> import_loop env upd f src build (Yield x rest) (0, 0, 0) st
        = shift (0, 1, 0) (import_loop env upd f src build rest (0, 0, 0) (stdout_write (record_warning f src e) st)))
   \<and> (build x = Inr d \<and> store_refuses env upd d st e \<longrightarrow>
      import_loop env upd f src build (Yield x rest) (i, s, u) st
        = import_loop env upd f src build rest (i, s + 1, u) (stdout_write (ErrorSaving (external_id d) e) st)
      \<and> import_loop env upd f src build (Yield x rest) (0, 0, 0) st
        = shift (0, 1, 0) (import_loop env upd f src build rest (0, 0, 0) (stdout_write (ErrorSaving (external_id d) e) st)))
   \<and> (row ''poi_id'' = Some a \<and> row ''poi_name'' = Some b
        \<and> (row ''poi_latitude'' = None \<or> row ''poi_latitude'' = Some None \<or> row ''poi_latitude'' = Some (Some []))
      \<longrightarrow> (\<exists>e'. csv_poi_data row = Inl e'))
   \<and> db (stdout_write m st) = db st"
proof -
  have sh: "import_loop env upd f src build rest (0, 1, 0) st1
        = shift (0, 1, 0) (import_loop env upd f src build rest (0, 0, 0) st1)" for st1
    using import_loop_shift[of env upd f src build rest 0 0 1 0 0 0 st1] by simp
  have 1: "build x = Inl e \<longrightarrow>
      import_loop env upd f src build (Yield x rest) (i, s, u) st
        = import_loop env upd f src build rest (i, s + 1, u) (stdout_write (record_warning f src e) st)
      \<and> import_loop env upd f src build (Yield x rest) (0, 0, 0) st
        = shift (0, 1, 0) (import_loop env upd f src build rest (0, 0, 0) (stdout_write (record_warning f src e) st))"
    using sh by (simp add: record_step_failed)
  have 2: "build x = Inr d \<and> store_refuses env upd d st e \<longrightarrow>
      import_loop env upd f src build (Yield x rest) (i, s, u) st
        = import_loop env upd f src build rest (i, s + 1, u) (stdout_write (ErrorSaving (external_id d) e) st)
      \<and> import_loop env upd f src build (Yield x rest) (0, 0, 0) st
        = shift (0, 1, 0) (import_loop env upd f src build rest (0, 0, 0) (stdout_write (ErrorSaving (external_id d) e) st))"
    using sh by (auto simp: record_step_def save_poi_refused)
  have 3: "row ''poi_id'' = Some a \<and> row ''poi_name'' = Some b
        \<and> (row ''poi_latitude'' = None \<or> row ''poi_latitude'' = Some None \<or> row ''poi_latitude'' = Some (Some []))
      \<longrightarrow> (\<exists>e'. csv_poi_data row = Inl e')"
    using csv_missing_latitude by blast
  have 4: "db (stdout_write m st) = db st"
    by (simp add: stdout_write_def)
  from 1 2 3 4 show ?thesis by blast
qed

lemma csv_row_with_latitude:
  "csv_poi_data (csv_row_of pid (Some ''1.5'')) =
     Inr \<lparr>external_id = PStr pid, name = PStr ''Cafe'', latitude = Dec (3 / 2), longitude = Dec (5 / 2),
          category = PStr ''food'', ratings = PList [PFloat (Fin 4), PFloat (Fin 5)],
          description_key = None\<rparr>"
proof -
  have "Decimal (Some ''1.5'') = Inr (Dec (3 / 2))" "Decimal (Some ''2.5'') = Inr (Dec (5 / 2))"
    by (simp_all add: decimal_eval)
  then show ?thesis
    by (simp add: csv_poi_data_def csv_row_of_def row_get_def bind_def of_text_def parse_ratings_braces45)
qed

lemma csv_row_without_latitude: "csv_poi_data (csv_row_of pid None) = Inl TypeError"
  by (simp add: csv_poi_data_def csv_row_of_def row_get_def bind_def Decimal_def)

theorem failed_record_is_skipped_witness:
  "fst (import_csv three_rows ''pois.csv'' False initial) = Inr (2, 1, 0)
   \<and> fst (import_csv_from_content three_rows ''...'' False ''http://example.com/pois.csv'' initial)
       = Inr (2, 1, 0)"
proof -
  let ?r3 = "Yield (csv_row_of ''3'' (Some ''1.5'')) Stop"
  let ?r2 = "Yield (csv_row_of ''2'' None) ?r3"
  let ?r1 = "Yield (csv_row_of ''1'' (Some ''1.5'')) ?r2"
  let ?d = "\<lambda>pid. \<lparr>external_id = PStr pid, name = PStr ''Cafe'', latitude = Dec (3 / 2),
      longitude = Dec (5 / 2), category = PStr ''food'', ratings = PList [PFloat (Fin 4), PFloat (Fin 5)],
      description_key = None\<rparr>"
  let ?st1 = "\<lparr>db = [PStr ''1'' \<mapsto> new_poi 1 (?d ''1'')], next_id = Suc (Suc 0), out = []\<rparr>"
  have three_rows_accepts: "db_fault three_rows = (\<lambda>row. None)"
    by (simp add: three_rows_def offline_def)
  have loop: "fst (import_loop three_rows False CSV src csv_poi_data ?r1 (0, 0, 0) initial) = Inr (2, 1, 0)"
    for src
  proof -
    have "import_loop three_rows False CSV src csv_poi_data ?r1 (0, 0, 0) initial
            = import_loop three_rows False CSV src csv_poi_data ?r2 (1, 0, 0) ?st1"
      by (subst import_loop.simps(3))
        (simp add: record_step_def csv_row_with_latitude save_poi_def get_or_create_def
          three_rows_accepts initial_def new_poi_def del: import_loop.simps)
    also have "\<dots> = import_loop three_rows False CSV src csv_poi_data ?r3 (1, 0 + 1, 0)
                       (stdout_write (record_warning CSV src TypeError) ?st1)"
      using failed_record_is_skipped[where build = csv_poi_data and x = "csv_row_of ''2'' None"
          and e = TypeError and env = three_rows and upd = False and f = CSV and src = src and rest = ?r3
          and i = 1 and s = 0 and u = 0 and st = ?st1]
        csv_row_without_latitude[of "''2''"]
      by blast
    also have "fst \<dots> = Inr (2, 1, 0)"
      by (simp add: record_step_def csv_row_with_latitude save_poi_def get_or_create_def
          three_rows_accepts stdout_write_def new_poi_def)
    finally show ?thesis .
  qed
  have "splitlines ''...'' \<noteq> []"
    by (simp add: splitlines_def is_linebreak_def)
  with loop[of None] loop[of "Some ''http://example.com/pois.csv''"] show ?thesis
    by (auto simp: import_csv_def import_csv_from_content_def three_rows_def offline_def
        split: prod.splits sum.splits)
qed

text \<open>
  C10. \<open>save_poi\<close> always returns one of the triples (1, 0, 0), (0, 1, 0), (0, 0, 1), also
  when the database refuses the write; a record that cannot be built adds exactly one to
  \<^verbatim>\<open>skipped\<close>; hence the three counters that a parser returns for a source add up to the
  number of records it went through.
\<close>

theorem every_record_counts_once:
  "(fst (save_poi env d upd st) = (1, 0, 0) \<or> fst (save_poi env d upd st) = (0, 1, 0)
     \<or> fst (save_poi env d upd st) = (0, 0, 1))
   \<and> (store_refuses env upd d st e \<longrightarrow> fst (save_poi env d upd st) = (0, 1, 0))
   \<and> fst (record_step env upd f src (Inl e) (i, s, u) st) = (i, s + 1, u)
   \<and> (fst (import_csv_from_content env content upd source_name st) = Inr (i, s, u) \<longrightarrow>
        i + s + u = (if splitlines content = [] then 0
                     else iter_len (csv_DictReader env (splitlines content))))
   \<and> (open_file env path = Inr content \<and> fst (import_csv env path upd st) = Inr (i, s, u) \<longrightarrow>
        i + s + u = iter_len (csv_DictReader env (file_lines content)))
   \<and> (json_loads content = Inr data \<and> json_items data = Inr items
        \<and> fst (import_json_from_content env content upd source_name st) = Inr (i, s, u) \<longrightarrow>
        i + s + u = length items)
   \<and> (fromstring env content = Inr doc
        \<and> fst (import_xml_from_content env content upd source_name st) = Inr (i, s, u) \<longrightarrow>
        i + s + u = length (first_nonempty doc [''poi'', ''point'', ''item'', ''DATA_RECORD'']))
   \<and> (fromstring env content = Inl e
        \<and> fst (import_xml_from_content env content upd source_name st) = Inr (i, s, u) \<longrightarrow>
        i + s + u = 0)
   \<and> (ET_parse env path = Inr doc \<and> fst (import_xml env path upd st) = Inr (i, s, u) \<longrightarrow>
        i + s + u = length (first_nonempty doc [''poi'', ''point'', ''item'']))"
proof -
  have count: "fst (import_loop env upd g sr build it (0, 0, 0) st) = Inr (i, s, u) \<Longrightarrow> i + s + u = iter_len it"
    for g sr and build :: "'b \<Rightarrow> error + poi_data" and it
    using import_loop_count[of env upd g sr build it 0 0 0 st i s u]
    by (cases "import_loop env upd g sr build it (0, 0, 0) st") auto
  have 1: "fst (save_poi env d upd st) = (1, 0, 0) \<or> fst (save_poi env d upd st) = (0, 1, 0)
     \<or> fst (save_poi env d upd st) = (0, 0, 1)"
    by (rule save_poi_triple)
  have 2: "store_refuses env upd d st e \<longrightarrow> fst (save_poi env d upd st) = (0, 1, 0)"
    by (simp add: save_poi_refused)
  have 3: "fst (record_step env upd f src (Inl e) (i, s, u) st) = (i, s + 1, u)"
    by (simp add: record_step_failed)
  have 4: "fst (import_csv_from_content env content upd source_name st) = Inr (i, s, u) \<longrightarrow>
        i + s + u = (if splitlines content = [] then 0
                     else iter_len (csv_DictReader env (splitlines content)))"
    using count[of CSV "Some source_name" csv_poi_data "csv_DictReader env (splitlines content)"]
    by (auto simp: import_csv_from_content_def split: prod.splits sum.splits if_splits)
  have 5: "open_file env path = Inr content \<and> fst (import_csv env path upd st) = Inr (i, s, u) \<longrightarrow>
        i + s + u = iter_len (csv_DictReader env (file_lines content))"
    using count[of CSV None csv_poi_data "csv_DictReader env (file_lines content)"]
    by (auto simp: import_csv_def)
  have 6: "json_loads content = Inr data \<and> json_items data = Inr items
        \<and> fst (import_json_from_content env content upd source_name st) = Inr (i, s, u) \<longrightarrow>
        i + s + u = length items"
    using count[of JSON "Some source_name" "json_poi_data env" "iter_of items"]
    by (auto simp: import_json_from_content_def iter_len_of split: prod.splits sum.splits)
  have 7: "fromstring env content = Inr doc
        \<and> fst (import_xml_from_content env content upd source_name st) = Inr (i, s, u) \<longrightarrow>
        i + s + u = length (first_nonempty doc [''poi'', ''point'', ''item'', ''DATA_RECORD''])"
    using count[of XML "Some source_name" xml_poi_data
        "iter_of (first_nonempty doc [''poi'', ''point'', ''item'', ''DATA_RECORD''])"]
    by (auto simp: import_xml_from_content_def iter_len_of first_nonempty_not_empty
        simp del: first_nonempty.simps)
  have 8: "fromstring env content = Inl e
        \<and> fst (import_xml_from_content env content upd source_name st) = Inr (i, s, u) \<longrightarrow>
        i + s + u = 0"
    by (auto simp: import_xml_from_content_def split: if_splits)
  have 9: "ET_parse env path = Inr doc \<and> fst (import_xml env path upd st) = Inr (i, s, u) \<longrightarrow>
        i + s + u = length (first_nonempty doc [''poi'', ''point'', ''item''])"
    using count[of XML None xml_poi_data "iter_of (first_nonempty doc [''poi'', ''point'', ''item''])"]
    by (auto simp: import_xml_def iter_len_of simp del: first_nonempty.simps)
  from 1 2 3 4 5 6 7 8 9 show ?thesis by blast
qed

theorem every_record_counts_once_witness:
  "fst (import_xml_from_content (offline\<lparr>fromstring := (\<lambda>content. Inr data_record_doc)\<rparr>)
          ''<DATA>...</DATA>'' False ''http://example.com/data.xml'' initial) = Inr (1, 0, 0)
   \<and> length (first_nonempty data_record_doc [''poi'', ''point'', ''item'', ''DATA_RECORD'']) = 1"
  using every_record_counts_once[where env = "offline\<lparr>fromstring := (\<lambda>content. Inr data_record_doc)\<rparr>"
      and content = "''<DATA>...</DATA>''" and upd = False and source_name = "''http://example.com/data.xml''"
      and st = initial and doc = data_record_doc and i = 1 and s = 0 and u = 0]
    xml_remote_example
  by (simp del: first_nonempty.simps)

section \<open>The orchestrator: properties\<close>

























section \<open>The bound of the JSON decoder\<close>

lemma prepend_rest: "prepend p x = Some (t, r) \<Longrightarrow> \<exists>t'. x = Some (t', r)"
  by (auto simp: prepend_def)

lemma scanstring_rest: "scanstring s = Some (t, r) \<Longrightarrow> length r \<le> length s"
proof (induction s arbitrary: t r rule: scanstring.induct)
  case 1
  then show ?case by simp
next
  case (2 c cs)
  show ?case
  proof (cases "c = CHR 0x22")
    case True
    with "2.prems" show ?thesis by simp
  next
    case quote: False
    show ?thesis
    proof (cases "c = CHR 0x5C")
      case True
      with quote "2.prems" obtain p k where e: "escape cs = Some (p, k)"
        and "prepend p (scanstring (drop k cs)) = Some (t, r)"
        by (auto split: option.splits)
      then obtain t' where "scanstring (drop k cs) = Some (t', r)"
        using prepend_rest by blast
      with "2.IH"(1)[OF quote True e refl] have "length r \<le> length (drop k cs)"
        by blast
      then show ?thesis by simp
    next
      case False
      with quote "2.prems" have c: "\<not> (of_char c :: nat) < 32"
        and "prepend [c] (scanstring cs) = Some (t, r)"
        by (auto split: if_splits)
      then obtain t' where "scanstring cs = Some (t', r)"
        using prepend_rest by blast
      with "2.IH"(2)[OF quote False c] have "length r \<le> length cs"
        by blast
      then show ?thesis by simp
    qed
  qed
qed

lemma json_int_part_rest: "json_int_part s = (ip, r) \<Longrightarrow> length r \<le> length s"
  by (auto simp: json_int_part_def length_dropWhile_le le_SucI split: list.splits if_splits)

lemma json_frac_part_rest: "json_frac_part s = (fp, r) \<Longrightarrow> length r \<le> length s"
  by (auto simp: json_frac_part_def length_dropWhile_le le_SucI split: list.splits if_splits)

lemma split_sign_rest: "split_sign s = (neg, r) \<Longrightarrow> length r \<le> length s"
  by (auto simp: split_sign_def split: list.splits if_splits)

lemma json_exponent_rest:
  assumes a: "json_exponent s = (ex, r)"
  shows "length r \<le> length s"
proof (cases s)
  case Nil
  with a show ?thesis by (simp add: json_exponent_def)
next
  case (Cons c cs)
  obtain neg r0 where sg: "split_sign cs = (neg, r0)"
    by (cases "split_sign cs")
  then have "length r0 \<le> length cs"
    by (rule split_sign_rest)
  moreover have "length (dropWhile is_digit r0) \<le> length r0"
    by (rule length_dropWhile_le)
  ultimately show ?thesis
    using a Cons sg by (auto simp: json_exponent_def split: if_splits)
qed

lemma json_number_rest:
  assumes "json_number s = Some (v, r)"
  shows "length r \<le> length s"
proof -
  obtain neg r0 where n: "(case s of [] \<Rightarrow> (False, []) | c # cs \<Rightarrow> if c = CHR ''-'' then (True, cs) else (False, s)) = (neg, r0)"
    by (metis surj_pair)
  then have 0: "length r0 \<le> length s"
    by (auto split: list.splits if_splits)
  obtain ip r1 where i: "json_int_part r0 = (ip, r1)"
    by (metis surj_pair)
  obtain fp r2 where f: "json_frac_part r1 = (fp, r2)"
    by (metis surj_pair)
  obtain ex r3 where e: "json_exponent r2 = (ex, r3)"
    by (metis surj_pair)
  from assms n i f e have "r = r3"
    by (auto simp: json_number_def Let_def split: if_splits)
  with 0 json_int_part_rest[OF i] json_frac_part_rest[OF f] json_exponent_rest[OF e]
  show ?thesis by simp
qed

lemma skip_ws_rest: "length (skip_ws s) \<le> length s"
  by (simp add: skip_ws_def length_dropWhile_le)

lemma skip_ws_Cons: "skip_ws s = c # cs \<Longrightarrow> length cs < length s"
  using skip_ws_rest[of s] by simp

lemma scan_once_Suc_rest:
  assumes arr: "\<And>s vs r. JSONArray n s = Some (vs, r) \<Longrightarrow> length r \<le> length s"
    and obj: "\<And>s ps r. JSONObject n s = Some (ps, r) \<Longrightarrow> length r \<le> length s"
    and res: "scan_once (Suc n) s = Some (v, r)"
  shows "length r \<le> length s"
proof (cases s)
  case Nil
  with res show ?thesis by simp
next
  case (Cons c cs)
  show ?thesis
  proof (cases "c = CHR 0x22")
    case True
    with res Cons obtain t where "scanstring cs = Some (t, r)"
      by auto
    then have "length r \<le> length cs"
      by (rule scanstring_rest)
    with Cons show ?thesis by simp
  next
    case q: False
    show ?thesis
    proof (cases "c = CHR ''{''")
      case True
      show ?thesis
      proof (cases "skip_ws cs")
        case Nil
        with res Cons q True show ?thesis by simp
      next
        case ws: (Cons d ds)
        show ?thesis
        proof (cases "d = CHR ''}''")
          case True
          with res Cons q \<open>c = CHR ''{''\<close> ws have "r = ds"
            by simp
          with skip_ws_Cons[OF ws] Cons show ?thesis by simp
        next
          case False
          with res Cons q \<open>c = CHR ''{''\<close> ws obtain ps where "JSONObject n (d # ds) = Some (ps, r)"
            by auto
          then have "length r \<le> length (d # ds)"
            by (rule obj)
          with skip_ws_Cons[OF ws] Cons show ?thesis by simp
        qed
      qed
    next
      case b: False
      show ?thesis
      proof (cases "c = CHR ''[''")
        case True
        show ?thesis
        proof (cases "skip_ws cs")
          case Nil
          with res Cons q b True show ?thesis by simp
        next
          case ws: (Cons d ds)
          show ?thesis
          proof (cases "d = CHR '']''")
            case True
            with res Cons q b \<open>c = CHR ''[''\<close> ws have "r = ds"
              by simp
            with skip_ws_Cons[OF ws] Cons show ?thesis by simp
          next
            case False
            with res Cons q b \<open>c = CHR ''[''\<close> ws obtain vs where "JSONArray n (d # ds) = Some (vs, r)"
              by auto
            then have "length r \<le> length (d # ds)"
              by (rule arr)
            with skip_ws_Cons[OF ws] Cons show ?thesis by simp
          qed
        qed
      next
        case k: False
        from res Cons q b k have
          "r = drop 4 s \<or> r = drop 5 s \<or> r = drop 3 s \<or> r = drop 8 s \<or> r = drop 9 s
           \<or> (\<exists>w. json_number s = Some (w, r))"
          by (simp split: if_splits option.splits)
        then show ?thesis
          using json_number_rest by auto
      qed
    qed
  qed
qed

lemma JSONArray_Suc_rest:
  assumes one: "\<And>s v r. scan_once n s = Some (v, r) \<Longrightarrow> length r \<le> length s"
    and arr: "\<And>s vs r. JSONArray n s = Some (vs, r) \<Longrightarrow> length r \<le> length s"
    and res: "JSONArray (Suc n) s = Some (vs, r)"
  shows "length r \<le> length s"
proof -
  from res obtain v r1 where v: "scan_once n s = Some (v, r1)"
    by (auto split: option.splits)
  then have 1: "length r1 \<le> length s"
    by (rule one)
  from res v obtain c cs where ws: "skip_ws r1 = c # cs"
    by (auto split: list.splits)
  have 2: "length cs < length r1"
    using ws by (rule skip_ws_Cons)
  show ?thesis
  proof (cases "c = CHR '']''")
    case True
    with res v ws have "r = cs" by simp
    with 1 2 show ?thesis by simp
  next
    case False
    with res v ws obtain ws' where "JSONArray n (skip_ws cs) = Some (ws', r)"
      by (auto split: if_splits)
    then have "length r \<le> length (skip_ws cs)"
      by (rule arr)
    with 1 2 skip_ws_rest[of cs] show ?thesis by simp
  qed
qed

lemma JSONObject_Suc_rest:
  assumes one: "\<And>s v r. scan_once n s = Some (v, r) \<Longrightarrow> length r \<le> length s"
    and obj: "\<And>s ps r. JSONObject n s = Some (ps, r) \<Longrightarrow> length r \<le> length s"
    and res: "JSONObject (Suc n) s = Some (ps, r)"
  shows "length r \<le> length s"
proof -
  from res obtain s1 where s: "s = CHR 0x22 # s1"
    by (cases s) (auto split: if_splits)
  from res s obtain k r1 where k: "scanstring s1 = Some (k, r1)"
    by (auto split: option.splits)
  then have 1: "length r1 \<le> length s1"
    by (rule scanstring_rest)
  from res s k obtain r2 where c: "skip_ws r1 = CHR '':'' # r2"
    by (auto split: list.splits if_splits)
  have 2: "length r2 < length r1"
    using c by (rule skip_ws_Cons)
  from res s k c obtain v r3 where v: "scan_once n (skip_ws r2) = Some (v, r3)"
    by (auto split: option.splits)
  then have 3: "length r3 \<le> length (skip_ws r2)"
    by (rule one)
  from res s k c v obtain d r4 where d: "skip_ws r3 = d # r4"
    by (auto split: list.splits)
  have 4: "length r4 < length r3"
    using d by (rule skip_ws_Cons)
  show ?thesis
  proof (cases "d = CHR ''}''")
    case True
    with res s k c v d have "r = r4" by simp
    with 1 2 3 4 skip_ws_rest[of r2] s show ?thesis by simp
  next
    case False
    with res s k c v d obtain ps' where "JSONObject n (skip_ws r4) = Some (ps', r)"
      by (auto split: if_splits)
    then have "length r \<le> length (skip_ws r4)"
      by (rule obj)
    with 1 2 3 4 skip_ws_rest[of r2] skip_ws_rest[of r4] s show ?thesis by simp
  qed
qed

lemma json_rest:
  "(\<forall>s v r. scan_once n s = Some (v, r) \<longrightarrow> length r \<le> length s)
   \<and> (\<forall>s vs r. JSONArray n s = Some (vs, r) \<longrightarrow> length r \<le> length s)
   \<and> (\<forall>s ps r. JSONObject n s = Some (ps, r) \<longrightarrow> length r \<le> length s)"
proof (induction n)
  case 0
  then show ?case by simp
next
  case (Suc n)
  then show ?case
    using scan_once_Suc_rest[of n] JSONArray_Suc_rest[of n] JSONObject_Suc_rest[of n]
    by blast
qed

lemma scan_once_rest: "scan_once n s = Some (v, r) \<Longrightarrow> length r \<le> length s"
  using json_rest by blast

lemma scan_once_Suc_fuel:
  assumes arr: "\<And>t. 2 * length t + 2 \<le> n \<Longrightarrow> 2 * length t + 2 \<le> m \<Longrightarrow> JSONArray n t = JSONArray m t"
    and obj: "\<And>t. 2 * length t + 2 \<le> n \<Longrightarrow> 2 * length t + 2 \<le> m \<Longrightarrow> JSONObject n t = JSONObject m t"
    and n: "2 * length s + 1 \<le> Suc n" and m: "2 * length s + 1 \<le> Suc m"
  shows "scan_once (Suc n) s = scan_once (Suc m) s"
proof (cases s)
  case Nil
  then show ?thesis by simp
next
  case (Cons c cs)
  show ?thesis
  proof (cases "skip_ws cs")
    case Nil
    with Cons show ?thesis by simp
  next
    case ws: (Cons d ds)
    have "length (d # ds) \<le> length cs"
      using skip_ws_rest[of cs] ws by simp
    with n m Cons have "2 * length (d # ds) + 2 \<le> n" "2 * length (d # ds) + 2 \<le> m"
      by simp_all
    then have "JSONArray n (d # ds) = JSONArray m (d # ds)" "JSONObject n (d # ds) = JSONObject m (d # ds)"
      using arr obj by blast+
    with Cons ws show ?thesis by simp
  qed
qed

lemma JSONArray_Suc_fuel:
  assumes one: "\<And>t. 2 * length t + 1 \<le> n \<Longrightarrow> 2 * length t + 1 \<le> m \<Longrightarrow> scan_once n t = scan_once m t"
    and arr: "\<And>t. 2 * length t + 2 \<le> n \<Longrightarrow> 2 * length t + 2 \<le> m \<Longrightarrow> JSONArray n t = JSONArray m t"
    and n: "2 * length s + 2 \<le> Suc n" and m: "2 * length s + 2 \<le> Suc m"
  shows "JSONArray (Suc n) s = JSONArray (Suc m) s"
proof -
  have eq: "scan_once n s = scan_once m s"
    using one n m by simp
  show ?thesis
  proof (cases "scan_once m s")
    case None
    with eq show ?thesis by simp
  next
    case (Some vr)
    obtain v r where vr: "vr = (v, r)"
      by (cases vr)
    have r: "length r \<le> length s"
      using Some vr scan_once_rest by blast
    show ?thesis
    proof (cases "skip_ws r")
      case Nil
      with eq Some vr show ?thesis by simp
    next
      case (Cons c cs)
      have "length (skip_ws cs) < length s"
        using skip_ws_Cons[OF Cons] skip_ws_rest[of cs] r by simp
      with n m have "2 * length (skip_ws cs) + 2 \<le> n" "2 * length (skip_ws cs) + 2 \<le> m"
        by simp_all
      then have "JSONArray n (skip_ws cs) = JSONArray m (skip_ws cs)"
        by (rule arr)
      with eq Some vr Cons show ?thesis by simp
    qed
  qed
qed

lemma JSONObject_Suc_fuel:
  assumes one: "\<And>t. 2 * length t + 1 \<le> n \<Longrightarrow> 2 * length t + 1 \<le> m \<Longrightarrow> scan_once n t = scan_once m t"
    and obj: "\<And>t. 2 * length t + 2 \<le> n \<Longrightarrow> 2 * length t + 2 \<le> m \<Longrightarrow> JSONObject n t = JSONObject m t"
    and n: "2 * length s + 2 \<le> Suc n" and m: "2 * length s + 2 \<le> Suc m"
  shows "JSONObject (Suc n) s = JSONObject (Suc m) s"
proof (cases s)
  case Nil
  then show ?thesis by simp
next
  case s: (Cons q s1)
  show ?thesis
  proof (cases "scanstring s1")
    case None
    with s show ?thesis by simp
  next
    case (Some kr)
    obtain k r1 where kr: "kr = (k, r1)"
      by (cases kr)
    have 1: "length r1 \<le> length s1"
      using Some kr scanstring_rest by blast
    show ?thesis
    proof (cases "skip_ws r1")
      case Nil
      with s Some kr show ?thesis by simp
    next
      case c: (Cons c r2)
      have 2: "length (skip_ws r2) < length r1"
        using skip_ws_Cons[OF c] skip_ws_rest[of r2] by simp
      with 1 s n m have "2 * length (skip_ws r2) + 1 \<le> n" "2 * length (skip_ws r2) + 1 \<le> m"
        by simp_all
      then have eq: "scan_once n (skip_ws r2) = scan_once m (skip_ws r2)"
        by (rule one)
      show ?thesis
      proof (cases "scan_once m (skip_ws r2)")
        case None
        with s Some kr c eq show ?thesis by simp
      next
        case v: (Some vr)
        obtain v r3 where vr: "vr = (v, r3)"
          by (cases vr)
        have 3: "length r3 \<le> length (skip_ws r2)"
          using v vr scan_once_rest by blast
        show ?thesis
        proof (cases "skip_ws r3")
          case Nil
          with s Some kr c eq v vr show ?thesis by simp
        next
          case d: (Cons d r4)
          have "length (skip_ws r4) < length r3"
            using skip_ws_Cons[OF d] skip_ws_rest[of r4] by simp
          with 1 2 3 s n m have "2 * length (skip_ws r4) + 2 \<le> n" "2 * length (skip_ws r4) + 2 \<le> m"
            by simp_all
          then have "JSONObject n (skip_ws r4) = JSONObject m (skip_ws r4)"
            by (rule obj)
          with s Some kr c eq v vr d show ?thesis by simp
        qed
      qed
    qed
  qed
qed

lemma json_fuel:
  "(\<forall>s m. 2 * length s + 1 \<le> n \<and> 2 * length s + 1 \<le> m \<longrightarrow> scan_once n s = scan_once m s)
   \<and> (\<forall>s m. 2 * length s + 2 \<le> n \<and> 2 * length s + 2 \<le> m \<longrightarrow> JSONArray n s = JSONArray m s)
   \<and> (\<forall>s m. 2 * length s + 2 \<le> n \<and> 2 * length s + 2 \<le> m \<longrightarrow> JSONObject n s = JSONObject m s)"
proof (induction n)
  case 0
  then show ?case by simp
next
  case (Suc n)
  have one: "scan_once n t = scan_once k t" if "2 * length t + 1 \<le> n" "2 * length t + 1 \<le> k" for t k
    using Suc.IH that by blast
  have arr: "JSONArray n t = JSONArray k t" if "2 * length t + 2 \<le> n" "2 * length t + 2 \<le> k" for t k
    using Suc.IH that by blast
  have obj: "JSONObject n t = JSONObject k t" if "2 * length t + 2 \<le> n" "2 * length t + 2 \<le> k" for t k
    using Suc.IH that by blast
  have 1: "scan_once (Suc n) s = scan_once m s"
    if b: "2 * length s + 1 \<le> Suc n" "2 * length s + 1 \<le> m" for s m
  proof -
    obtain k where m: "m = Suc k"
      using b(2) by (cases m) simp_all
    have bk: "2 * length s + 1 \<le> Suc k"
      using b(2) m by simp
    show ?thesis
      unfolding m by (rule scan_once_Suc_fuel[OF arr obj b(1) bk])
  qed
  have 2: "JSONArray (Suc n) s = JSONArray m s"
    if b: "2 * length s + 2 \<le> Suc n" "2 * length s + 2 \<le> m" for s m
  proof -
    obtain k where m: "m = Suc k"
      using b(2) by (cases m) simp_all
    have bk: "2 * length s + 2 \<le> Suc k"
      using b(2) m by simp
    show ?thesis
      unfolding m by (rule JSONArray_Suc_fuel[OF one arr b(1) bk])
  qed
  have 3: "JSONObject (Suc n) s = JSONObject m s"
    if b: "2 * length s + 2 \<le> Suc n" "2 * length s + 2 \<le> m" for s m
  proof -
    obtain k where m: "m = Suc k"
      using b(2) by (cases m) simp_all
    have bk: "2 * length s + 2 \<le> Suc k"
      using b(2) m by simp
    show ?thesis
      unfolding m by (rule JSONObject_Suc_fuel[OF one obj b(1) bk])
  qed
  from 1 2 3 show ?case by blast
qed

text \<open>
  The bound with which \<open>json_loads\<close> starts is never used up: any larger bound gives the
  same answer.
\<close>

lemma json_loads_bound:
  assumes "2 * length s + 1 \<le> n"
  shows "scan_once n (skip_ws s) = scan_once (2 * length s + 1) (skip_ws s)"
proof -
  have "2 * length (skip_ws s) + 1 \<le> 2 * length s + 1"
    using skip_ws_rest[of s] by simp
  then have "2 * length (skip_ws s) + 1 \<le> n"
    using assms by simp
  with \<open>2 * length (skip_ws s) + 1 \<le> 2 * length s + 1\<close> json_fuel[of n] show ?thesis
    by blast
qed

end
